theory Spec2Isabelle
  imports Complex_Main "HOL-Library.Word"
begin

unbundle bit_operations_syntax

section \<open>Basic types\<close>

type_synonym byte = "8 word"

text \<open>
  Exceptions and traps of the C++ code are values: \<open>RuntimeError\<close> is a thrown
  \<^verbatim>\<open>std::runtime_error\<close> with its message, \<open>DivideByZero\<close> an integer division by
  zero, \<open>UndefinedConversion\<close> a \<^verbatim>\<open>static_cast<int>\<close> of a double that is
  infinite, not a number, or outside the range of \<^verbatim>\<open>int\<close>, and \<open>IntOutOfRange\<close> an
  \<^verbatim>\<open>int\<close> computation of a byte count whose value is not an \<^verbatim>\<open>int\<close> (signed overflow,
  which is undefined) or a byte count too large for the \<^verbatim>\<open>int\<close> it is stored in.
\<close>

datatype error = RuntimeError string | DivideByZero | UndefinedConversion | IntOutOfRange

text \<open>
  \<^verbatim>\<open>int\<close> has 32 bits. A natural number is a value of \<^verbatim>\<open>int\<close> when it is below
  \<open>2 ^ 31\<close>; a \<^verbatim>\<open>uint32_t\<close> stored into an \<^verbatim>\<open>int\<close> keeps its 32 bits, read as a signed
  number.
\<close>

definition fits_int :: "nat \<Rightarrow> bool" where
  "fits_int n = (n < 2 ^ 31)"

definition int_of_uint32 :: "nat \<Rightarrow> int" where
  "int_of_uint32 n =
     (if n mod 2 ^ 32 < 2 ^ 31 then int (n mod 2 ^ 32) else int (n mod 2 ^ 32) - 2 ^ 32)"

subsection \<open>Double arithmetic\<close>

text \<open>
  The warmup computation of \<^verbatim>\<open>getNewStream\<close> is written in \<^verbatim>\<open>double\<close> and divides
  by a byte rate that is zero when no sample rate has been stored. A double is modelled
  as an exact rational or one of the three special values; the rounding error of the
  finite operations is not modelled, so where the exact quotient is a whole number the
  rounded one may lie just above it and its ceiling be one higher. A zero divisor is taken as \<open>+0.0\<close>: the sign of a
  zero only decides between the two infinities, and both are outside \<^verbatim>\<open>int\<close>.
\<close>

datatype dbl = Fin rat | PInf | NInf | NaN

fun dbl_neg :: "dbl \<Rightarrow> dbl" where
  "dbl_neg (Fin x) = Fin (- x)"
| "dbl_neg PInf = NInf"
| "dbl_neg NInf = PInf"
| "dbl_neg NaN = NaN"

fun dbl_div :: "dbl \<Rightarrow> dbl \<Rightarrow> dbl" where
  "dbl_div (Fin x) (Fin y) =
     (if y = 0 then (if 0 < x then PInf else if x < 0 then NInf else NaN) else Fin (x / y))"
| "dbl_div (Fin x) PInf = Fin 0"
| "dbl_div (Fin x) NInf = Fin 0"
| "dbl_div PInf (Fin y) = (if 0 \<le> y then PInf else NInf)"
| "dbl_div NInf (Fin y) = (if 0 \<le> y then NInf else PInf)"
| "dbl_div _ _ = NaN"

fun dbl_mul :: "dbl \<Rightarrow> dbl \<Rightarrow> dbl" where
  "dbl_mul (Fin x) (Fin y) = Fin (x * y)"
| "dbl_mul NaN _ = NaN"
| "dbl_mul _ NaN = NaN"
| "dbl_mul (Fin x) i = (if x = 0 then NaN else if 0 < x then i else dbl_neg i)"
| "dbl_mul i (Fin y) = (if y = 0 then NaN else if 0 < y then i else dbl_neg i)"
| "dbl_mul PInf PInf = PInf"
| "dbl_mul NInf NInf = PInf"
| "dbl_mul PInf NInf = NInf"
| "dbl_mul NInf PInf = NInf"

fun dbl_ceil :: "dbl \<Rightarrow> dbl" where
  "dbl_ceil (Fin x) = Fin (of_int \<lceil>x\<rceil>)"
| "dbl_ceil d = d"

text \<open>\<^verbatim>\<open>static_cast<int>(double)\<close>: truncation towards zero, undefined outside \<^verbatim>\<open>int\<close>.\<close>

fun dbl_to_int :: "dbl \<Rightarrow> int option" where
  "dbl_to_int (Fin x) =
     (let t = (if 0 \<le> x then \<lfloor>x\<rfloor> else \<lceil>x\<rceil>)
      in if - (2 ^ 31) \<le> t \<and> t \<le> 2 ^ 31 - 1 then Some t else None)"
| "dbl_to_int _ = None"

section \<open>The ring buffer\<close>

text \<open>
  Modelled from the spec: the class \<^verbatim>\<open>DirettaRingBuffer\<close> (its header is not among the
  sources). The spec gives a byte region of size \<open>N\<close> with \<open>0 \<le> used \<le> N\<close>, a silence
  byte, push variants that return the byte count actually written (partial writes when
  the buffer fills) and a pop of \<open>min(available, n)\<close> bytes. The region with its head and
  tail indices is kept as the queue of buffered bytes, oldest first. \<open>resize\<close> gives an
  empty buffer of the requested size with a new silence byte.
\<close>

record DirettaRingBuffer =
  rb_size :: nat
  rb_data :: "byte list"
  rb_silence :: byte

definition getAvailable :: "DirettaRingBuffer \<Rightarrow> nat" where
  "getAvailable r = length (rb_data r)"

definition silenceByte :: "DirettaRingBuffer \<Rightarrow> byte" where
  "silenceByte r = rb_silence r"

definition clear :: "DirettaRingBuffer \<Rightarrow> DirettaRingBuffer" where
  "clear r = r\<lparr>rb_data := []\<rparr>"

definition resize :: "nat \<Rightarrow> byte \<Rightarrow> DirettaRingBuffer" where
  "resize n sb = \<lparr>rb_size = n, rb_data = [], rb_silence = sb\<rparr>"

definition push :: "DirettaRingBuffer \<Rightarrow> byte list \<Rightarrow> nat \<times> DirettaRingBuffer" where
  "push r bs =
     (let n = min (length bs) (rb_size r - length (rb_data r))
      in (n, r\<lparr>rb_data := rb_data r @ take n bs\<rparr>))"

definition pop :: "DirettaRingBuffer \<Rightarrow> nat \<Rightarrow> byte list \<times> DirettaRingBuffer" where
  "pop r n =
     (let k = min n (length (rb_data r))
      in (take k (rb_data r), r\<lparr>rb_data := drop k (rb_data r)\<rparr>))"

text \<open>
  Modelled from the spec: the converting pushes of \<^verbatim>\<open>DirettaRingBuffer\<close>, which are
  missing with the class. In the spec's words: 16-bit samples widened to 32 bits by a
  left shift of 16 (little-endian bytes), 24-bit samples in a 32-bit container packed to
  three bytes (the high byte dropped), and the four DSD conversions on 32-bit sink words:
  copy, byte-reverse, bit-reverse, both. An incomplete trailing sample is not written.
\<close>

datatype DSDConversionMode = Passthrough | BitReverseOnly | ByteSwapOnly | BitReverseAndSwap

fun widen16 :: "byte list \<Rightarrow> byte list" where
  "widen16 (lo # hi # bs) = 0 # 0 # lo # hi # widen16 bs"
| "widen16 _ = []"

fun pack24 :: "byte list \<Rightarrow> byte list" where
  "pack24 (b0 # b1 # b2 # b3 # bs) = b0 # b1 # b2 # pack24 bs"
| "pack24 _ = []"

definition bit_reverse :: "byte \<Rightarrow> byte" where
  "bit_reverse b =
     fold (\<lambda>i acc. if bit b i then acc OR push_bit (7 - i) 1 else acc) [0..<8] 0"

fun byte_swap32 :: "byte list \<Rightarrow> byte list" where
  "byte_swap32 (b0 # b1 # b2 # b3 # bs) = b3 # b2 # b1 # b0 # byte_swap32 bs"
| "byte_swap32 _ = []"

fun whole_words32 :: "byte list \<Rightarrow> byte list" where
  "whole_words32 (b0 # b1 # b2 # b3 # bs) = b0 # b1 # b2 # b3 # whole_words32 bs"
| "whole_words32 _ = []"

fun dsd_convert :: "DSDConversionMode \<Rightarrow> byte list \<Rightarrow> byte list" where
  "dsd_convert Passthrough bs = whole_words32 bs"
| "dsd_convert BitReverseOnly bs = map bit_reverse (whole_words32 bs)"
| "dsd_convert ByteSwapOnly bs = byte_swap32 bs"
| "dsd_convert BitReverseAndSwap bs = map bit_reverse (byte_swap32 bs)"

definition push16To32 :: "DirettaRingBuffer \<Rightarrow> byte list \<Rightarrow> nat \<times> DirettaRingBuffer" where
  "push16To32 r bs = push r (widen16 bs)"

definition push24BitPacked :: "DirettaRingBuffer \<Rightarrow> byte list \<Rightarrow> nat \<times> DirettaRingBuffer" where
  "push24BitPacked r bs = push r (pack24 bs)"

definition pushDSDPlanarOptimized ::
  "DirettaRingBuffer \<Rightarrow> byte list \<Rightarrow> nat \<Rightarrow> DSDConversionMode \<Rightarrow> nat \<times> DirettaRingBuffer" where
  "pushDSDPlanarOptimized r bs numChannels mode = push r (dsd_convert mode bs)"

section \<open>Formats, configuration and the transport library\<close>

text \<open>
  \<^verbatim>\<open>AudioFormat\<close> and \<^verbatim>\<open>DirettaConfig\<close> are declared in headers that are not among
  the sources; the records hold the fields that \<^verbatim>\<open>DirettaSync.cpp\<close> reads, with the
  unsigned types the spec gives for the format.
\<close>

datatype DSDFormat = DSF | DFF

record AudioFormat =
  sampleRate :: nat
  bitDepth :: nat
  channels :: nat
  isDSD :: bool
  dsdFormat :: DSDFormat

datatype DirettaTransferMode = AUTO | FIX_AUTO | VAR_AUTO | VAR_MAX

record DirettaConfig =
  cycleTime :: nat
  cycleTimeAuto :: bool
  threadMode :: int
  mtu :: int
  mtuFallback :: int
  onlineWaitMs :: nat
  formatSwitchDelayMs :: nat
  transferMode :: DirettaTransferMode

text \<open>
  The constants and helpers of the namespaces \<^verbatim>\<open>DirettaBuffer\<close> and \<^verbatim>\<open>DirettaRetry\<close>
  and the class \<^verbatim>\<open>DirettaCycleCalculator\<close> are declared outside the sources as well.
  They are parameters of the model, together with the global \<^verbatim>\<open>g_verbose\<close>.
\<close>

record DirettaParams =
  POST_ONLINE_SILENCE_BUFFERS :: int
  PCM_BUFFER_SECONDS :: rat
  DSD_BUFFER_SECONDS :: rat
  calculateBufferSize :: "nat \<Rightarrow> rat \<Rightarrow> nat"
  calculatePrefill :: "nat \<Rightarrow> bool \<Rightarrow> bool \<Rightarrow> nat"
  OPEN_RETRIES :: nat
  OPEN_DELAY_MS :: nat
  SETSINK_RETRIES_FULL :: nat
  SETSINK_RETRIES_QUICK :: nat
  SETSINK_DELAY_FULL_MS :: nat
  SETSINK_DELAY_QUICK_MS :: nat
  CONNECT_RETRIES :: nat
  CONNECT_DELAY_MS :: nat
  REOPEN_SINK_RETRIES :: nat
  REOPEN_SINK_DELAY_MS :: nat
  calculate :: "int \<Rightarrow> nat \<Rightarrow> nat \<Rightarrow> nat \<Rightarrow> nat"
  g_verbose :: bool

text \<open>
  The vendor library (\<^verbatim>\<open>DIRETTA::Sync\<close>, \<^verbatim>\<open>DIRETTA::Find\<close>) is the environment. A sink
  format descriptor is the set of \<^verbatim>\<open>FormatID\<close> flags or-ed together, with the speed and
  the channel count set on it. Every call into the library, every sleep and every join of
  the worker thread is appended to a trace kept in the state, so that what an operation
  did to the transport can be read off afterwards. \<open>Callback dest\<close> records a cycle
  callback that the transport made while the control thread was waiting, with the buffer
  it collected.
\<close>

datatype FormatID =
    FMT_PCM_SIGNED_32 | FMT_PCM_SIGNED_24 | FMT_PCM_SIGNED_16
  | FMT_DSD1 | FMT_DSD_SIZ_32 | FMT_DSD_LSB | FMT_DSD_MSB | FMT_DSD_BIG | FMT_DSD_LITTLE

record FormatConfigure =
  fmt_speed :: nat
  fmt_channel :: nat
  fmt_format :: "FormatID set"

datatype effect =
    Find_open | Find_findOutput | Find_measSendMTU nat | Find_close
  | Sync_open int nat | Sync_close | InquirySupportFormat nat
  | CheckSinkSupport FormatConfigure | SetSinkConfigure FormatConfigure
  | SetSink nat nat int
  | ConfigTransferFixAuto nat | ConfigTransferVarAuto nat | ConfigTransferVarMax nat
  | ConnectPrepare | Connect | ConnectWait | Disconnect bool | Disconnect_default
  | Play | Stop | Sleep_ms nat | Join_worker | Callback "byte list"

text \<open>
  What the library answers: \<open>answer n\<close> is the result of the fallible call made when the
  trace has length \<open>n\<close>, \<open>targets\<close> the discovery result (address and name, in the order
  of the result map), \<open>measuredMTU\<close> the MTU probe's value, \<open>sinkSupport\<close> the sink's
  answer to \<^verbatim>\<open>checkSinkSupport\<close>, and \<open>online\<close> the value of \<^verbatim>\<open>is_online()\<close>.
\<close>

record sdk_env =
  answer :: "nat \<Rightarrow> bool"
  targets :: "(nat \<times> string) list"
  measuredMTU :: nat
  sinkSupport :: "FormatConfigure \<Rightarrow> bool"
  online :: bool

section \<open>The state of \<^verbatim>\<open>DirettaSync\<close>\<close>

text \<open>
  One field for each member that the modelled functions read or write. Counters declared
  \<^verbatim>\<open>uint32_t\<close> are 32-bit words; sizes and byte counts, which the code computes from
  unsigned format fields, are natural numbers. \<open>trace\<close> is the trace of transport
  effects and \<open>underrunReports\<close> the underrun counts written to \<^verbatim>\<open>std::cerr\<close>, oldest
  first; console output has no other part in the state.
\<close>

record DirettaSync =
  m_enabled :: bool
  m_open :: bool
  m_playing :: bool
  m_paused :: bool
  m_sdkOpen :: bool
  m_running :: bool
  m_config :: DirettaConfig
  m_effectiveMTU :: int
  m_mtuOverride :: int
  m_targetIndex :: int
  m_targetAddress :: nat
  m_calculator :: "int option"
  m_sampleRate :: nat
  m_channels :: nat
  m_bytesPerSample :: nat
  m_inputBytesPerSample :: nat
  m_bytesPerBuffer :: nat
  m_isDsdMode :: bool
  m_need24BitPack :: bool
  m_need16To32Upsample :: bool
  m_needDsdBitReversal :: bool
  m_needDsdByteSwap :: bool
  m_isLowBitrate :: bool
  m_dsdConversionMode :: DSDConversionMode
  m_formatGeneration :: "32 word"
  m_cachedFormatGen :: "32 word"
  m_cachedDsdMode :: bool
  m_cachedPack24bit :: bool
  m_cachedUpsample16to32 :: bool
  m_cachedChannels :: nat
  m_cachedBytesPerSample :: nat
  m_cachedDsdConversionMode :: DSDConversionMode
  m_ringBuffer :: DirettaRingBuffer
  m_reconfiguring :: bool
  m_ringUsers :: int
  m_stopRequested :: bool
  m_silenceBuffersRemaining :: int
  m_prefillComplete :: bool
  m_prefillTarget :: nat
  m_postOnlineDelayDone :: bool
  m_stabilizationCount :: int
  m_draining :: bool
  m_workerActive :: bool
  m_streamCount :: "32 word"
  m_underrunCount :: "32 word"
  m_pushCount :: "64 word"
  m_currentFormat :: AudioFormat
  m_previousFormat :: AudioFormat
  m_hasPreviousFormat :: bool
  trace :: "effect list"
  underrunReports :: "32 word list"

definition sdk :: "sdk_env \<Rightarrow> effect \<Rightarrow> DirettaSync \<Rightarrow> bool \<times> DirettaSync" where
  "sdk E c s = (answer E (length (trace s)), s\<lparr>trace := trace s @ [c]\<rparr>)"

definition effect :: "effect \<Rightarrow> DirettaSync \<Rightarrow> DirettaSync" where
  "effect c s = s\<lparr>trace := trace s @ [c]\<rparr>"

section \<open>The ring access guard\<close>

text \<open>
  \<^verbatim>\<open>RingAccessGuard\<close> loads the \<^verbatim>\<open>reconfiguring\<close> flag twice, before and after it
  increments the user count; another thread may set the flag in between. The two loaded
  values \<open>r1\<close> and \<open>r2\<close> are arguments. The constructor yields the user count and
  \<^verbatim>\<open>active_\<close>; the destructor decrements the count of an active guard.
\<close>

definition RingAccessGuard :: "bool \<Rightarrow> bool \<Rightarrow> int \<Rightarrow> int \<times> bool" where
  "RingAccessGuard r1 r2 users =
     (if r1 then (users, False)
      else let users1 = users + 1
           in if r2 then (users1 - 1, False) else (users1, True))"

definition RingAccessGuard_destroy :: "bool \<Rightarrow> int \<Rightarrow> int" where
  "RingAccessGuard_destroy active users = (if active then users - 1 else users)"

section \<open>The cycle callback\<close>

definition dsdStabilizationTarget :: "nat \<Rightarrow> int \<Rightarrow> int option" where
  "dsdStabilizationTarget currentSampleRate effectiveMTU =
     (let dsdMultiplier = int currentSampleRate div 2822400;
          targetWarmupMs = 50 * max 1 dsdMultiplier;
          efficientMTU = effectiveMTU - 24;
          bytesPerSecond = dbl_div (dbl_mul (Fin (of_nat currentSampleRate)) (Fin 2)) (Fin 8);
          cycleTimeUs =
            dbl_mul (dbl_div (Fin (of_int efficientMTU)) bytesPerSecond) (Fin 1000000);
          buffersNeeded = dbl_div (dbl_mul (Fin (of_int targetWarmupMs)) (Fin 1000)) cycleTimeUs
      in map_option (\<lambda>t. max 50 (min t 3000)) (dbl_to_int (dbl_ceil buffersNeeded)))"

definition stabilizationTarget :: "DirettaParams \<Rightarrow> DirettaSync \<Rightarrow> int option" where
  "stabilizationTarget P s =
     (if m_isDsdMode s then dsdStabilizationTarget (m_sampleRate s) (m_effectiveMTU s)
      else Some (POST_ONLINE_SILENCE_BUFFERS P))"

text \<open>
  Every return of \<^verbatim>\<open>getNewStream\<close> behind the guard clears \<^verbatim>\<open>m_workerActive\<close>, returns
  \<^verbatim>\<open>true\<close> and runs the guard's destructor. Each branch overwrites all bytes of the
  resized stream, so the result is the stream's new content.
\<close>

definition getNewStream_return ::
  "byte list \<Rightarrow> DirettaSync \<Rightarrow> error + (byte list \<times> bool \<times> DirettaSync)" where
  "getNewStream_return dest s =
     Inr (dest, True,
          s\<lparr>m_workerActive := False, m_ringUsers := RingAccessGuard_destroy True (m_ringUsers s)\<rparr>)"

definition getNewStream ::
  "DirettaParams \<Rightarrow> bool \<Rightarrow> bool \<Rightarrow> DirettaSync \<Rightarrow> error + (byte list \<times> bool \<times> DirettaSync)" where
  "getNewStream P r1 r2 s0 =
     (let s1 = s0\<lparr>m_workerActive := True\<rparr>;
          currentBytesPerBuffer = m_bytesPerBuffer s1;
          currentSilenceByte = silenceByte (m_ringBuffer s1);
          silence = replicate currentBytesPerBuffer currentSilenceByte;
          (users, active) = RingAccessGuard r1 r2 (m_ringUsers s1);
          s2 = s1\<lparr>m_ringUsers := users\<rparr>
      in if \<not> active then Inr (silence, True, s2\<lparr>m_workerActive := False\<rparr>)
         else if 0 < m_silenceBuffersRemaining s2 then
           getNewStream_return silence
             (s2\<lparr>m_silenceBuffersRemaining := m_silenceBuffersRemaining s2 - 1\<rparr>)
         else if m_stopRequested s2 then getNewStream_return silence s2
         else if \<not> m_prefillComplete s2 then getNewStream_return silence s2
         else if \<not> m_postOnlineDelayDone s2 then
           (case stabilizationTarget P s2 of
              None \<Rightarrow> Inl UndefinedConversion
            | Some target \<Rightarrow>
                let count = m_stabilizationCount s2 + 1;
                    s3 = s2\<lparr>m_stabilizationCount := count\<rparr>;
                    s4 = (if target \<le> count
                          then s3\<lparr>m_postOnlineDelayDone := True, m_stabilizationCount := 0\<rparr>
                          else s3)
                in getNewStream_return silence s4)
         else
           let s3 = s2\<lparr>m_streamCount := m_streamCount s2 + 1\<rparr>;
               avail = getAvailable (m_ringBuffer s3)
           in if avail < currentBytesPerBuffer then
                getNewStream_return silence (s3\<lparr>m_underrunCount := m_underrunCount s3 + 1\<rparr>)
              else
                let (dest, ring) = pop (m_ringBuffer s3) currentBytesPerBuffer
                in getNewStream_return dest (s3\<lparr>m_ringBuffer := ring\<rparr>))"

section \<open>The push interface\<close>

text \<open>
  \<open>data\<close> is the memory behind the caller's pointer, read from offset 0; the bytes the
  code reads are \<open>map data [0..<totalBytes]\<close>.
\<close>

definition reloadFormatCache :: "DirettaSync \<Rightarrow> DirettaSync" where
  "reloadFormatCache s =
     (let gen = m_formatGeneration s
      in if gen \<noteq> m_cachedFormatGen s
         then s\<lparr>m_cachedDsdMode := m_isDsdMode s,
                 m_cachedPack24bit := m_need24BitPack s,
                 m_cachedUpsample16to32 := m_need16To32Upsample s,
                 m_cachedChannels := m_channels s,
                 m_cachedBytesPerSample := m_bytesPerSample s,
                 m_cachedDsdConversionMode := m_dsdConversionMode s,
                 m_cachedFormatGen := gen\<rparr>
         else s)"

definition pushCached :: "(nat \<Rightarrow> byte) \<Rightarrow> nat \<Rightarrow> DirettaSync \<Rightarrow> nat \<times> DirettaRingBuffer" where
  "pushCached data numSamples s =
     (let numChannels = m_cachedChannels s;
          bytesPerSample = m_cachedBytesPerSample s;
          input = (\<lambda>totalBytes. map data [0..<totalBytes])
      in if m_cachedDsdMode s then
           pushDSDPlanarOptimized (m_ringBuffer s)
             (input ((numSamples * numChannels) div 8)) numChannels (m_cachedDsdConversionMode s)
         else if m_cachedPack24bit s then
           push24BitPacked (m_ringBuffer s) (input (numSamples * (4 * numChannels)))
         else if m_cachedUpsample16to32 s then
           push16To32 (m_ringBuffer s) (input (numSamples * (2 * numChannels)))
         else
           push (m_ringBuffer s) (input (numSamples * (bytesPerSample * numChannels))))"

definition checkPrefill :: "DirettaParams \<Rightarrow> nat \<Rightarrow> DirettaSync \<Rightarrow> DirettaSync" where
  "checkPrefill P written s =
     (if 0 < written then
        let s1 = (if \<not> m_prefillComplete s \<and> m_prefillTarget s \<le> getAvailable (m_ringBuffer s)
                  then s\<lparr>m_prefillComplete := True\<rparr> else s)
        in if g_verbose P then s1\<lparr>m_pushCount := m_pushCount s1 + 1\<rparr> else s1
      else s)"

text \<open>
  \<^verbatim>\<open>sendAudio\<close>: the entry checks and the guard, then the three steps above under the
  guard: reload of the cached format when the generation changed, the push that the
  cached format selects, and the check for prefill completion.
\<close>

definition sendAudio ::
  "DirettaParams \<Rightarrow> sdk_env \<Rightarrow> bool \<Rightarrow> bool \<Rightarrow> (nat \<Rightarrow> byte) \<Rightarrow> nat \<Rightarrow> DirettaSync
     \<Rightarrow> nat \<times> DirettaSync" where
  "sendAudio P E r1 r2 data numSamples s0 =
     (if m_draining s0 then (0, s0)
      else if m_stopRequested s0 then (0, s0)
      else if \<not> online E then (0, s0)
      else
        let (users, active) = RingAccessGuard r1 r2 (m_ringUsers s0);
            s1 = s0\<lparr>m_ringUsers := users\<rparr>
        in if \<not> active then (0, s1)
           else
             let s2 = reloadFormatCache s1;
                 (written, ring) = pushCached data numSamples s2;
                 s3 = checkPrefill P written (s2\<lparr>m_ringBuffer := ring\<rparr>)
             in (written, s3\<lparr>m_ringUsers := RingAccessGuard_destroy True (m_ringUsers s3)\<rparr>))"

section \<open>Shutdown silence and stopping\<close>

definition requestShutdownSilence :: "int \<Rightarrow> DirettaSync \<Rightarrow> DirettaSync" where
  "requestShutdownSilence buffers s = s\<lparr>m_silenceBuffersRemaining := buffers, m_draining := True\<rparr>"

text \<open>
  The control thread waits, up to a deadline, until the consumer has emitted the requested
  silence buffers. The wait is modelled by the interleaving it allows: \<open>cycles\<close> is the
  number of cycle callbacks the transport makes before the deadline; each one runs
  \<^verbatim>\<open>getNewStream\<close> to completion and is recorded in the trace. The loop ends
  as soon as no silence buffer remains, or when the deadline passes.
\<close>

fun awaitSilence :: "DirettaParams \<Rightarrow> nat \<Rightarrow> DirettaSync \<Rightarrow> error + DirettaSync" where
  "awaitSilence P 0 s = Inr s"
| "awaitSilence P (Suc cycles) s =
     (if 0 < m_silenceBuffersRemaining s then
        (case getNewStream P (m_reconfiguring s) (m_reconfiguring s) s of
           Inl e \<Rightarrow> Inl e
         | Inr (dest, _, s1) \<Rightarrow> awaitSilence P cycles (effect (Callback dest) s1))
      else Inr s)"

definition stopPlayback ::
  "DirettaParams \<Rightarrow> nat \<Rightarrow> bool \<Rightarrow> DirettaSync \<Rightarrow> error + DirettaSync" where
  "stopPlayback P cycles immediate s0 =
     (let underruns = m_underrunCount s0;
          s1 = s0\<lparr>m_underrunCount := 0\<rparr>;
          s2 = (if 0 < underruns then s1\<lparr>underrunReports := underrunReports s1 @ [underruns]\<rparr>
                else s1)
      in if \<not> m_playing s2 then Inr s2
         else
           (case (if \<not> immediate
                  then awaitSilence P cycles
                         (requestShutdownSilence (if m_isDsdMode s2 then 50 else 20) s2)
                  else Inr s2) of
              Inl e \<Rightarrow> Inl e
            | Inr s3 \<Rightarrow> Inr ((effect Stop s3)\<lparr>m_playing := False, m_paused := False\<rparr>)))"

section \<open>Reconfiguration of the ring\<close>

text \<open>
  \<^verbatim>\<open>beginReconfigure\<close> sets the flag and spins until no ring user is left. The model
  runs one operation at a time, so a user count above zero is never lowered by another
  thread and the call does not return: this is the value \<open>None\<close>.
\<close>

definition beginReconfigure :: "DirettaSync \<Rightarrow> DirettaSync option" where
  "beginReconfigure s =
     (let s1 = s\<lparr>m_reconfiguring := True\<rparr>
      in if 0 < m_ringUsers s1 then None else Some s1)"

definition endReconfigure :: "DirettaSync \<Rightarrow> DirettaSync" where
  "endReconfigure s = s\<lparr>m_reconfiguring := False\<rparr>"

text \<open>
  In \<^verbatim>\<open>configureRingPCM\<close> the bytes of one cycle are computed in \<^verbatim>\<open>int\<close>:
  \<^verbatim>\<open>((rate + 999) / 1000) * channels * direttaBps\<close>. The sum and the two products
  overflow when they leave the range of \<^verbatim>\<open>int\<close>; the model then ends with
  \<open>IntOutOfRange\<close> and follows the call no further, so that the count it stores is
  always the value of the \<^verbatim>\<open>int\<close> expression. The bytes per second are computed in
  \<^verbatim>\<open>size_t\<close>.
\<close>

definition pcm_cycle_fits :: "nat \<Rightarrow> nat \<Rightarrow> nat \<Rightarrow> bool" where
  "pcm_cycle_fits rate nchannels direttaBps =
     (fits_int (rate + 999)
      \<and> fits_int (((rate + 999) div 1000) * nchannels)
      \<and> fits_int (((rate + 999) div 1000) * nchannels * direttaBps))"

definition configureRingPCM ::
  "DirettaParams \<Rightarrow> nat \<Rightarrow> nat \<Rightarrow> nat \<Rightarrow> nat \<Rightarrow> DirettaSync
     \<Rightarrow> (error + DirettaSync) option" where
  "configureRingPCM P rate nchannels direttaBps inputBps s0 =
     (case beginReconfigure s0 of
        None \<Rightarrow> None
      | Some s1 \<Rightarrow>
          let s2 = s1\<lparr>m_sampleRate := rate,
                      m_channels := nchannels,
                      m_bytesPerSample := direttaBps,
                      m_inputBytesPerSample := inputBps,
                      m_need24BitPack := (direttaBps = 3 \<and> inputBps = 4),
                      m_need16To32Upsample := (direttaBps = 4 \<and> inputBps = 2),
                      m_isDsdMode := False,
                      m_needDsdBitReversal := False,
                      m_needDsdByteSwap := False,
                      m_isLowBitrate := (direttaBps \<le> 2 \<and> rate \<le> 48000),
                      m_dsdConversionMode := Passthrough,
                      m_formatGeneration := m_formatGeneration s1 + 1\<rparr>;
              bytesPerSecond = rate * nchannels * direttaBps;
              ringSize = calculateBufferSize P bytesPerSecond (PCM_BUFFER_SECONDS P);
              s3 = s2\<lparr>m_ringBuffer := resize ringSize 0\<rparr>;
              ringSize = rb_size (m_ringBuffer s3)
          in if \<not> pcm_cycle_fits rate nchannels direttaBps then Some (Inl IntOutOfRange)
             else
               let s4 = s3\<lparr>m_bytesPerBuffer := ((rate + 999) div 1000) * nchannels * direttaBps\<rparr>;
                   s5 = s4\<lparr>m_prefillTarget :=
                             calculatePrefill P bytesPerSecond False (m_isLowBitrate s4)\<rparr>;
                   s6 = s5\<lparr>m_prefillTarget := min (m_prefillTarget s5) (ringSize div 4),
                           m_prefillComplete := False\<rparr>
               in Some (Inr (endReconfigure s6)))"

text \<open>
  In \<^verbatim>\<open>configureRingDSD\<close> the byte rate is a \<^verbatim>\<open>uint32_t\<close>, so its products with the
  channel count wrap at \<open>2 ^ 32\<close>; the rounding to \<open>4 * channels\<close> is done in
  \<^verbatim>\<open>size_t\<close> (of 64 bits, which the sum cannot leave) and divides by zero when there
  is no channel. The product \<^verbatim>\<open>4 * channels\<close> is an \<^verbatim>\<open>int\<close>, and the rounded count is
  stored with \<^verbatim>\<open>static_cast<int>\<close>: where the product overflows, or the count is not
  a value of \<^verbatim>\<open>int\<close> (the stored number would be negative), the model ends with
  \<open>IntOutOfRange\<close>.
\<close>

definition configureRingDSD ::
  "DirettaParams \<Rightarrow> nat \<Rightarrow> nat \<Rightarrow> DirettaSync \<Rightarrow> (error + DirettaSync) option" where
  "configureRingDSD P byteRate nchannels s0 =
     (case beginReconfigure s0 of
        None \<Rightarrow> None
      | Some s1 \<Rightarrow>
          let s2 = s1\<lparr>m_isDsdMode := True,
                      m_need24BitPack := False,
                      m_need16To32Upsample := False,
                      m_channels := nchannels,
                      m_isLowBitrate := False,
                      m_formatGeneration := m_formatGeneration s1 + 1\<rparr>;
              bytesPerSecond = (byteRate * nchannels) mod 2 ^ 32;
              ringSize = calculateBufferSize P bytesPerSecond (DSD_BUFFER_SECONDS P);
              s3 = s2\<lparr>m_ringBuffer := resize ringSize 0x69\<rparr>;
              ringSize = rb_size (m_ringBuffer s3);
              inputBytesPerMs = ((byteRate div 1000) * nchannels) mod 2 ^ 32
          in if \<not> fits_int (4 * nchannels) then Some (Inl IntOutOfRange)
             else if 4 * nchannels = 0 then Some (Inl DivideByZero)
             else
               let bytesPerBuffer =
                     ((inputBytesPerMs + (4 * nchannels - 1)) div (4 * nchannels)) * (4 * nchannels);
                   bytesPerBuffer = (if bytesPerBuffer < 64 then 64 else bytesPerBuffer)
               in if \<not> fits_int bytesPerBuffer then Some (Inl IntOutOfRange)
                  else
                    let s4 = s3\<lparr>m_bytesPerBuffer := bytesPerBuffer\<rparr>;
                        s5 = s4\<lparr>m_prefillTarget := calculatePrefill P bytesPerSecond True False\<rparr>;
                        s6 = s5\<lparr>m_prefillTarget := min (m_prefillTarget s5) (ringSize div 4),
                                m_prefillComplete := False\<rparr>
                    in Some (Inr (endReconfigure s6)))"

text \<open>
  \<^verbatim>\<open>fullReset\<close> first polls \<^verbatim>\<open>m_workerActive\<close>, at most 50 times with 10 ms between
  polls, then resets the playback state under the reconfigure guard.
\<close>

fun waitWorkerIdle :: "nat \<Rightarrow> DirettaSync \<Rightarrow> DirettaSync" where
  "waitWorkerIdle 0 s = s"
| "waitWorkerIdle (Suc n) s =
     (if m_workerActive s then waitWorkerIdle n (effect (Sleep_ms 10) s) else s)"

definition fullReset :: "DirettaSync \<Rightarrow> DirettaSync option" where
  "fullReset s0 =
     (let s1 = s0\<lparr>m_stopRequested := True, m_draining := False\<rparr>;
          s2 = waitWorkerIdle 50 s1
      in case beginReconfigure s2 of
           None \<Rightarrow> None
         | Some s3 \<Rightarrow>
             let s4 = s3\<lparr>m_prefillComplete := False,
                         m_postOnlineDelayDone := False,
                         m_silenceBuffersRemaining := 0,
                         m_stabilizationCount := 0,
                         m_streamCount := 0,
                         m_pushCount := 0,
                         m_isDsdMode := False,
                         m_needDsdBitReversal := False,
                         m_needDsdByteSwap := False,
                         m_isLowBitrate := False,
                         m_need24BitPack := False,
                         m_need16To32Upsample := False,
                         m_ringBuffer := clear (m_ringBuffer s3)\<rparr>
             in Some ((endReconfigure s4)\<lparr>m_stopRequested := False\<rparr>))"

section \<open>Sink configuration\<close>

definition checkSinkSupport :: "sdk_env \<Rightarrow> FormatConfigure \<Rightarrow> DirettaSync \<Rightarrow> bool \<times> DirettaSync" where
  "checkSinkSupport E fmt s = (sinkSupport E fmt, effect (CheckSinkSupport fmt) s)"

definition setSinkConfigure :: "FormatConfigure \<Rightarrow> DirettaSync \<Rightarrow> DirettaSync" where
  "setSinkConfigure fmt s = effect (SetSinkConfigure fmt) s"

text \<open>
  \<^verbatim>\<open>configureSinkPCM\<close> returns the accepted wire bit depth through a reference
  parameter, or throws. The state is returned in both cases: it is the state a caller
  that catches the exception goes on with.
\<close>

definition configureSinkPCM ::
  "sdk_env \<Rightarrow> nat \<Rightarrow> nat \<Rightarrow> nat \<Rightarrow> DirettaSync \<Rightarrow> (error + nat) \<times> DirettaSync" where
  "configureSinkPCM E rate nchannels inputBits s0 =
     (let fmt32 = \<lparr>fmt_speed = rate, fmt_channel = nchannels, fmt_format = {FMT_PCM_SIGNED_32}\<rparr>;
          (ok32, s1) = checkSinkSupport E fmt32 s0
      in if ok32 then (Inr 32, setSinkConfigure fmt32 s1)
         else
           let fmt24 = fmt32\<lparr>fmt_format := {FMT_PCM_SIGNED_24}\<rparr>;
               (ok24, s2) = checkSinkSupport E fmt24 s1
           in if ok24 then (Inr 24, setSinkConfigure fmt24 s2)
              else
                let fmt16 = fmt24\<lparr>fmt_format := {FMT_PCM_SIGNED_16}\<rparr>;
                    (ok16, s3) = checkSinkSupport E fmt16 s2
                in if ok16 then (Inr 16, setSinkConfigure fmt16 s3)
                   else (Inl (RuntimeError ''No supported PCM format found''), s3))"

definition dsdSinkAccepted ::
  "FormatConfigure \<Rightarrow> bool \<Rightarrow> bool \<Rightarrow> DSDConversionMode \<Rightarrow> DirettaSync \<Rightarrow> DirettaSync" where
  "dsdSinkAccepted fmt needReversal needSwap mode s =
     (setSinkConfigure fmt s)\<lparr>m_needDsdBitReversal := needReversal,
                               m_needDsdByteSwap := needSwap,
                               m_dsdConversionMode := mode\<rparr>"

definition configureSinkDSD ::
  "sdk_env \<Rightarrow> nat \<Rightarrow> nat \<Rightarrow> AudioFormat \<Rightarrow> DirettaSync \<Rightarrow> (error + unit) \<times> DirettaSync" where
  "configureSinkDSD E dsdBitRate nchannels format s0 =
     (let sourceIsLSB = (dsdFormat format = DSF);
          fmt1 = \<lparr>fmt_speed = dsdBitRate, fmt_channel = nchannels,
                  fmt_format = {FMT_DSD1, FMT_DSD_SIZ_32, FMT_DSD_LSB, FMT_DSD_BIG}\<rparr>;
          (ok1, s1) = checkSinkSupport E fmt1 s0
      in if ok1 then
           (Inr (), dsdSinkAccepted fmt1 (\<not> sourceIsLSB) False
                      (if \<not> sourceIsLSB then BitReverseOnly else Passthrough) s1)
         else
           let fmt2 = fmt1\<lparr>fmt_format := {FMT_DSD1, FMT_DSD_SIZ_32, FMT_DSD_MSB, FMT_DSD_BIG}\<rparr>;
               (ok2, s2) = checkSinkSupport E fmt2 s1
           in if ok2 then
                (Inr (), dsdSinkAccepted fmt2 sourceIsLSB False
                           (if sourceIsLSB then BitReverseOnly else Passthrough) s2)
              else
                let fmt3 = fmt2\<lparr>fmt_format :=
                                   {FMT_DSD1, FMT_DSD_SIZ_32, FMT_DSD_LSB, FMT_DSD_LITTLE}\<rparr>;
                    (ok3, s3) = checkSinkSupport E fmt3 s2
                in if ok3 then
                     (Inr (), dsdSinkAccepted fmt3 (\<not> sourceIsLSB) True
                                (if \<not> sourceIsLSB then BitReverseAndSwap else ByteSwapOnly) s3)
                   else
                     let fmt4 = fmt3\<lparr>fmt_format :=
                                        {FMT_DSD1, FMT_DSD_SIZ_32, FMT_DSD_MSB, FMT_DSD_LITTLE}\<rparr>;
                         (ok4, s4) = checkSinkSupport E fmt4 s3
                     in if ok4 then
                          (Inr (), dsdSinkAccepted fmt4 sourceIsLSB True
                                     (if sourceIsLSB then BitReverseAndSwap else ByteSwapOnly) s4)
                        else
                          let fmt5 = fmt4\<lparr>fmt_format := {FMT_DSD1}\<rparr>;
                              (ok5, s5) = checkSinkSupport E fmt5 s4
                          in if ok5 then
                               let needReverse = \<not> sourceIsLSB;
                                   needSwap = False
                               in (Inr (), dsdSinkAccepted fmt5 needReverse needSwap
                                             (if needReverse \<and> needSwap then BitReverseAndSwap
                                              else if needReverse then BitReverseOnly
                                              else if needSwap then ByteSwapOnly
                                              else Passthrough) s5)
                             else (Inl (RuntimeError ''No supported DSD format found''), s5))"

section \<open>Enabling\<close>

text \<open>
  The retry loops of the source all have one shape: up to \<open>n\<close> attempts, a sleep before
  every attempt but the first, stop at the first success.
\<close>

fun retry :: "sdk_env \<Rightarrow> nat \<Rightarrow> nat \<Rightarrow> effect \<Rightarrow> bool \<Rightarrow> DirettaSync \<Rightarrow> bool \<times> DirettaSync" where
  "retry E 0 delayMs c first s = (False, s)"
| "retry E (Suc n) delayMs c first s =
     (let s1 = (if first then s else effect (Sleep_ms delayMs) s);
          (ok, s2) = sdk E c s1
      in if ok then (True, s2) else retry E n delayMs c False s2)"

definition discoverTarget :: "sdk_env \<Rightarrow> DirettaSync \<Rightarrow> bool \<times> DirettaSync" where
  "discoverTarget E s0 =
     (let (opened, s1) = sdk E Find_open s0
      in if \<not> opened then (False, s1)
         else
           let (found, s2) = sdk E Find_findOutput s1;
               results = targets E
           in if \<not> found \<or> results = [] then (False, effect Find_close s2)
              else
                let idx = m_targetIndex s2;
                    address =
                      (if length results = 1 \<or> idx = 0 then fst (hd results)
                       else if 0 < idx \<and> idx < int (length results) then fst (results ! nat idx)
                       else fst (hd results))
                in (True, effect Find_close (s2\<lparr>m_targetAddress := address\<rparr>)))"

definition measureMTU :: "sdk_env \<Rightarrow> DirettaSync \<Rightarrow> bool \<times> DirettaSync" where
  "measureMTU E s0 =
     (if 0 < m_mtuOverride s0 then (True, s0\<lparr>m_effectiveMTU := m_mtuOverride s0\<rparr>)
      else if 0 < mtu (m_config s0) then (True, s0\<lparr>m_effectiveMTU := mtu (m_config s0)\<rparr>)
      else
        let (opened, s1) = sdk E Find_open s0
        in if \<not> opened then (False, s1\<lparr>m_effectiveMTU := mtuFallback (m_config s1)\<rparr>)
           else
             let (ok, s2) = sdk E (Find_measSendMTU (m_targetAddress s1)) s1;
                 s3 = effect Find_close s2
             in if ok \<and> 0 < measuredMTU E mod 2 ^ 32
                then (True, s3\<lparr>m_effectiveMTU := int_of_uint32 (measuredMTU E)\<rparr>)
                else (False, s3\<lparr>m_effectiveMTU := mtuFallback (m_config s3)\<rparr>))"

definition openSyncConnection :: "DirettaParams \<Rightarrow> sdk_env \<Rightarrow> DirettaSync \<Rightarrow> bool \<times> DirettaSync" where
  "openSyncConnection P E s0 =
     (let (opened, s1) =
            retry E (OPEN_RETRIES P) (OPEN_DELAY_MS P)
              (Sync_open (threadMode (m_config s0)) (cycleTime (m_config s0))) True s0
      in if \<not> opened then (False, s1)
         else (True, effect (InquirySupportFormat (m_targetAddress s1)) (s1\<lparr>m_sdkOpen := True\<rparr>)))"

definition enable ::
  "DirettaParams \<Rightarrow> sdk_env \<Rightarrow> DirettaConfig \<Rightarrow> DirettaSync \<Rightarrow> bool \<times> DirettaSync" where
  "enable P E config s0 =
     (if m_enabled s0 then (True, s0)
      else
        let s1 = s0\<lparr>m_config := config\<rparr>;
            (found, s2) = discoverTarget E s1
        in if \<not> found then (False, s2)
           else
             let (measured, s3) = measureMTU E s2;
                 s4 = s3\<lparr>m_calculator := Some (m_effectiveMTU s3)\<rparr>;
                 (opened, s5) = openSyncConnection P E s4
             in if \<not> opened then (False, s5)
                else (True, s5\<lparr>m_enabled := True\<rparr>))"

section \<open>Opening a format\<close>

definition reopenForFormatChange :: "DirettaParams \<Rightarrow> sdk_env \<Rightarrow> DirettaSync \<Rightarrow> bool \<times> DirettaSync" where
  "reopenForFormatChange P E s0 =
     (let s1 = effect Sync_close (effect (Disconnect True) (effect Stop s0));
          s2 = effect Join_worker (s1\<lparr>m_running := False\<rparr>);
          s3 = effect (Sleep_ms (formatSwitchDelayMs (m_config s2))) s2;
          cycle = cycleTime (m_config s3);
          (opened, s4) = sdk E (Sync_open (threadMode (m_config s3)) cycle) s3
      in if \<not> opened then (False, s4)
         else
           let (sinkFound, s5) =
                 retry E (REOPEN_SINK_RETRIES P) (REOPEN_SINK_DELAY_MS P)
                   (SetSink (m_targetAddress s4) cycle (m_effectiveMTU s4)) True s4
           in if \<not> sinkFound then (False, s5)
              else (True, effect (InquirySupportFormat (m_targetAddress s5)) s5))"

text \<open>
  The full close and reopen that \<^verbatim>\<open>open\<close> spells out twice, with a delay of 400 ms
  after DSD and of 100 ms for a PCM rate change.
\<close>

definition closeAndReopen :: "sdk_env \<Rightarrow> nat \<Rightarrow> DirettaSync \<Rightarrow> bool \<times> DirettaSync" where
  "closeAndReopen E resetDelayMs s0 =
     (let s1 = s0\<lparr>m_silenceBuffersRemaining := 0\<rparr>;
          s2 = effect Sync_close (effect (Disconnect True) (effect Stop s1));
          s3 = effect Join_worker (s2\<lparr>m_running := False\<rparr>);
          s4 = s3\<lparr>m_open := False, m_playing := False, m_paused := False\<rparr>;
          s5 = effect (Sleep_ms resetDelayMs) s4
      in sdk E (Sync_open (threadMode (m_config s5)) (cycleTime (m_config s5))) s5)"

definition sameFormat :: "AudioFormat \<Rightarrow> AudioFormat \<Rightarrow> bool" where
  "sameFormat prev format =
     (sampleRate prev = sampleRate format \<and> bitDepth prev = bitDepth format
      \<and> channels prev = channels format \<and> isDSD prev = isDSD format)"

definition open_quickResume :: "DirettaParams \<Rightarrow> nat \<Rightarrow> DirettaSync \<Rightarrow> error + DirettaSync" where
  "open_quickResume P cycles s0 =
     (case (if m_isDsdMode s0 then awaitSilence P cycles (requestShutdownSilence 30 s0)
            else Inr s0) of
        Inl e \<Rightarrow> Inl e
      | Inr s1 \<Rightarrow>
          let s2 = s1\<lparr>m_ringBuffer := clear (m_ringBuffer s1),
                      m_prefillComplete := False,
                      m_postOnlineDelayDone := False,
                      m_stabilizationCount := 0,
                      m_stopRequested := False,
                      m_draining := False,
                      m_silenceBuffersRemaining := 0\<rparr>
          in Inr ((effect Play s2)\<lparr>m_playing := True, m_paused := False\<rparr>))"

definition open_formatChange ::
  "DirettaParams \<Rightarrow> sdk_env \<Rightarrow> AudioFormat \<Rightarrow> DirettaSync \<Rightarrow> bool \<times> DirettaSync" where
  "open_formatChange P E format s0 =
     (let wasDSD = isDSD (m_previousFormat s0);
          nowDSD = isDSD format;
          nowPCM = (\<not> isDSD format);
          isDsdRateChange =
            (wasDSD \<and> nowDSD \<and> sampleRate (m_previousFormat s0) \<noteq> sampleRate format);
          isPcmRateChange =
            (\<not> wasDSD \<and> nowPCM \<and> sampleRate (m_previousFormat s0) \<noteq> sampleRate format)
      in if wasDSD \<and> (nowPCM \<or> isDsdRateChange) then
           closeAndReopen E (if nowPCM then 400 else 400) s0
         else if isPcmRateChange then closeAndReopen E 100 s0
         else reopenForFormatChange P E s0)"

definition open_configureFormat ::
  "DirettaParams \<Rightarrow> sdk_env \<Rightarrow> AudioFormat \<Rightarrow> DirettaSync
     \<Rightarrow> ((error + nat \<times> nat) \<times> DirettaSync) option" where
  "open_configureFormat P E format s0 =
     (let s1 = s0\<lparr>m_isDsdMode := isDSD format\<rparr>
      in if m_isDsdMode s1 then
           let dsdBitRate = sampleRate format;
               byteRate = dsdBitRate div 8
           in (case configureSinkDSD E dsdBitRate (channels format) format s1 of
                 (Inl e, s2) \<Rightarrow> Some (Inl e, s2)
               | (Inr _, s2) \<Rightarrow>
                   (case configureRingDSD P byteRate (channels format) s2 of
                      None \<Rightarrow> None
                    | Some (Inl e) \<Rightarrow> Some (Inl e, s2)
                    | Some (Inr s3) \<Rightarrow> Some (Inr (dsdBitRate, 1), s3)))
         else
           (case configureSinkPCM E (sampleRate format) (channels format) (bitDepth format) s1 of
              (Inl e, s2) \<Rightarrow> Some (Inl e, s2)
            | (Inr acceptedBits, s2) \<Rightarrow>
                let direttaBps = (if acceptedBits = 32 then 4 else if acceptedBits = 24 then 3 else 2);
                    inputBps = (if bitDepth format = 32 \<or> bitDepth format = 24 then 4 else 2)
                in (case configureRingPCM P (sampleRate format) (channels format) direttaBps inputBps s2 of
                      None \<Rightarrow> None
                    | Some (Inl e) \<Rightarrow> Some (Inl e, s2)
                    | Some (Inr s3) \<Rightarrow> Some (Inr (sampleRate format, acceptedBits), s3))))"

definition calculateCycleTime :: "DirettaParams \<Rightarrow> nat \<Rightarrow> nat \<Rightarrow> nat \<Rightarrow> DirettaSync \<Rightarrow> nat" where
  "calculateCycleTime P rate nchannels bitsPerSample s =
     (case m_calculator s of
        None \<Rightarrow> cycleTime (m_config s)
      | Some calculatorMTU \<Rightarrow>
          if \<not> cycleTimeAuto (m_config s) then cycleTime (m_config s)
          else calculate P calculatorMTU rate nchannels bitsPerSample)"

definition applyTransferMode :: "DirettaTransferMode \<Rightarrow> nat \<Rightarrow> DirettaSync \<Rightarrow> DirettaSync" where
  "applyTransferMode mode cycle s =
     (case mode of
        AUTO \<Rightarrow>
          if m_isLowBitrate s \<or> m_isDsdMode s then effect (ConfigTransferVarAuto cycle) s
          else effect (ConfigTransferVarMax cycle) s
      | FIX_AUTO \<Rightarrow> effect (ConfigTransferFixAuto cycle) s
      | VAR_AUTO \<Rightarrow> effect (ConfigTransferVarAuto cycle) s
      | VAR_MAX \<Rightarrow> effect (ConfigTransferVarMax cycle) s)"

text \<open>
  \<^verbatim>\<open>waitForOnline\<close> polls \<^verbatim>\<open>is_online()\<close> every 5 ms until the timeout. With the
  constant answer of the environment it returns at once or sleeps for the whole timeout.
\<close>

definition waitForOnline :: "sdk_env \<Rightarrow> nat \<Rightarrow> DirettaSync \<Rightarrow> bool \<times> DirettaSync" where
  "waitForOnline E timeoutMs s =
     (if online E then (True, s) else (False, effect (Sleep_ms timeoutMs) s))"

text \<open>
  The second half of \<^verbatim>\<open>open\<close>: set the sink, connect, start playing. The local
  \<^verbatim>\<open>needFullConnect\<close> is initialised to \<^verbatim>\<open>true\<close> and never assigned another value.
\<close>

definition open_connect ::
  "DirettaParams \<Rightarrow> sdk_env \<Rightarrow> AudioFormat \<Rightarrow> nat \<Rightarrow> nat \<Rightarrow> DirettaSync \<Rightarrow> bool \<times> DirettaSync" where
  "open_connect P E format effectiveSampleRate bitsPerSample s0 =
     (let needFullConnect = True;
          cycleTimeUs = calculateCycleTime P effectiveSampleRate (channels format) bitsPerSample s0;
          initialDelayMs = (if needFullConnect then 500 else 200);
          s1 = effect (Sleep_ms initialDelayMs) s0;
          maxAttempts = (if needFullConnect then SETSINK_RETRIES_FULL P else SETSINK_RETRIES_QUICK P);
          retryDelayMs = (if needFullConnect then SETSINK_DELAY_FULL_MS P else SETSINK_DELAY_QUICK_MS P);
          (sinkSet, s2) =
            retry E maxAttempts retryDelayMs
              (SetSink (m_targetAddress s1) cycleTimeUs (m_effectiveMTU s1)) True s1
      in if \<not> sinkSet then (False, s2)
         else
           let s3 = applyTransferMode (transferMode (m_config s2)) cycleTimeUs s2;
               (prepared, s4) = (if needFullConnect then sdk E ConnectPrepare s3 else (True, s3))
           in if \<not> prepared then (False, s4)
              else
                let (connected, s5) =
                      (if needFullConnect
                       then retry E (CONNECT_RETRIES P) (CONNECT_DELAY_MS P) Connect True s4
                       else (True, s4))
                in if \<not> connected then (False, s5)
                   else
                     let (waited, s6) = (if needFullConnect then sdk E ConnectWait s5 else (True, s5))
                     in if \<not> waited then (False, effect Disconnect_default s6)
                        else
                          let s7 = s6\<lparr>m_ringBuffer := clear (m_ringBuffer s6),
                                      m_prefillComplete := False,
                                      m_postOnlineDelayDone := False\<rparr>;
                              s8 = effect Play s7;
                              (isOnline, s9) = waitForOnline E (onlineWaitMs (m_config s8)) s8
                          in (True, s9\<lparr>m_postOnlineDelayDone := False,
                                       m_stabilizationCount := 0,
                                       m_previousFormat := format,
                                       m_hasPreviousFormat := True,
                                       m_currentFormat := format,
                                       m_open := True,
                                       m_playing := True,
                                       m_paused := False\<rparr>))"

text \<open>
  \<^verbatim>\<open>DirettaSync::open\<close>. The result is \<open>None\<close> when the call does not return,
  otherwise the returned value or the exception that leaves the function, with the state
  at that point. \<open>cycles\<close> is the number of cycle callbacks during the wait of the quick
  resume.
\<close>

definition open' ::
  "DirettaParams \<Rightarrow> sdk_env \<Rightarrow> nat \<Rightarrow> AudioFormat \<Rightarrow> DirettaSync
     \<Rightarrow> ((error + bool) \<times> DirettaSync) option" where
  "open' P E cycles format s0 =
     (if \<not> m_enabled s0 then Some (Inr False, s0)
      else
        let (sdkReady, s1) = (if \<not> m_sdkOpen s0 then openSyncConnection P E s0 else (True, s0))
        in if \<not> sdkReady then Some (Inr False, s1)
           else if m_open s1 \<and> m_hasPreviousFormat s1 \<and> sameFormat (m_previousFormat s1) format then
             (case open_quickResume P cycles s1 of
                Inl e \<Rightarrow> Some (Inl e, s1)
              | Inr s2 \<Rightarrow> Some (Inr True, s2))
           else
             let (reopened, s2) =
                   (if m_open s1 \<and> m_hasPreviousFormat s1 then open_formatChange P E format s1
                    else (True, s1))
             in if \<not> reopened then Some (Inr False, s2)
                else
                  (case fullReset s2 of
                     None \<Rightarrow> None
                   | Some s3 \<Rightarrow>
                       (case open_configureFormat P E format s3 of
                          None \<Rightarrow> None
                        | Some (Inl e, s4) \<Rightarrow> Some (Inl e, s4)
                        | Some (Inr (effectiveSampleRate, bitsPerSample), s4) \<Rightarrow>
                            let (ok, s5) = open_connect P E format effectiveSampleRate bitsPerSample s4
                            in Some (Inr ok, s5))))"

section \<open>The cycle decision tree of the spec\<close>

text \<open>
  The decision tree of the spec's section on the cycle callback, in the spec's order, as
  the branch it selects. It is compared with \<^verbatim>\<open>getNewStream\<close> below; \<open>reconfiguring\<close>
  is what the ring access guard observed.
\<close>

datatype cycle_branch =
  Reconfiguring | ShutdownSilence | StopRequested | Prefilling | Warmup | Underrun | Normal

definition spec_cycle_branch :: "bool \<Rightarrow> DirettaSync \<Rightarrow> cycle_branch" where
  "spec_cycle_branch reconfiguring s =
     (if reconfiguring then Reconfiguring
      else if 0 < m_silenceBuffersRemaining s then ShutdownSilence
      else if m_stopRequested s then StopRequested
      else if \<not> m_prefillComplete s then Prefilling
      else if \<not> m_postOnlineDelayDone s then Warmup
      else if getAvailable (m_ringBuffer s) < m_bytesPerBuffer s then Underrun
      else Normal)"

section \<open>Format negotiation as the spec words it\<close>

text \<open>
  The spec's negotiation: a list of descriptors tried in order, the first one the sink
  accepts is configured. \<open>sink_trials\<close> is the trace this leaves: a support check for
  every descriptor up to and including the first accepted one, which is then set. For PCM
  the list is the wire bit depths 32, 24, 16; for DSD the four combinations of bit order
  and endianness and then the minimal descriptor, which names neither and is taken as
  LSB-first and big-endian.
\<close>

definition sink_trials :: "(FormatConfigure \<Rightarrow> bool) \<Rightarrow> FormatConfigure list \<Rightarrow> effect list" where
  "sink_trials accepts fmts =
     map CheckSinkSupport (takeWhile (\<lambda>fmt. \<not> accepts fmt) fmts)
       @ (case find accepts fmts of
            None \<Rightarrow> []
          | Some fmt \<Rightarrow> [CheckSinkSupport fmt, SetSinkConfigure fmt])"

definition descriptor :: "nat \<Rightarrow> nat \<Rightarrow> FormatID set \<Rightarrow> FormatConfigure" where
  "descriptor rate nchannels flags = \<lparr>fmt_speed = rate, fmt_channel = nchannels, fmt_format = flags\<rparr>"










text \<open>
  What one call did with the sink is read from the trace: \<open>new_effects s s'\<close> are the
  effects that a call taking \<open>s\<close> to \<open>s'\<close> appended, and \<open>sink_negotiation\<close> keeps of a
  trace the support checks and the configurations of the sink, in their order. A step is
  \<open>quiet\<close> when it only appends to the trace and appends nothing of that kind.
\<close>

fun is_negotiation :: "effect \<Rightarrow> bool" where
  "is_negotiation (CheckSinkSupport fmt) = True"
| "is_negotiation (SetSinkConfigure fmt) = True"
| "is_negotiation _ = False"

definition sink_negotiation :: "effect list \<Rightarrow> effect list" where
  "sink_negotiation t = filter is_negotiation t"



section \<open>The DSD warmup count as the spec words it\<close>

text \<open>
  The spec's warmup for DSD: a target of 50 ms times the DSD multiplier (the sample rate
  over 2822400, at least 1), divided by the cycle period and rounded up, clamped to
  \<open>[50, 3000]\<close>. The cycle period in microseconds is the payload \<open>mtu - 24\<close> over the
  bytes per second \<open>rate * channels * bits / 8\<close> with one bit per sample, times a million.
\<close>

definition spec_warmup_cycles :: "nat \<Rightarrow> nat \<Rightarrow> int \<Rightarrow> int" where
  "spec_warmup_cycles sample_rate nchannels path_mtu =
     (let dsd_multiplier = max 1 (int sample_rate div 2822400);
          target_warmup_us = rat_of_int (50 * dsd_multiplier * 1000);
          bytes_per_second = rat_of_nat (sample_rate * nchannels * 1) / 8;
          cycle_period_us = rat_of_int (path_mtu - 24) / bytes_per_second * 1000000
      in max 50 (min 3000 \<lceil>target_warmup_us / cycle_period_us\<rceil>))"

section \<open>A concrete instance\<close>

text \<open>
  The theorems below hold for every value of the parameters and every answer of the
  transport. For evaluations at concrete inputs there is one instance of each: parameters
  with the values the spec states (three seconds of PCM and one and a half of DSD in the
  ring, 40 ms of prefill, doubled for low bit rates, the retry counts and delays of the
  spec's retry policy, a cycle time of payload over byte rate), a transport on which every
  call succeeds and whose sink accepts any descriptor with a given flag, and the state
  that the constructor and the member initialisers of \<^verbatim>\<open>DirettaSync\<close> produce (the
  defaults of the configuration and of the target index are not in the sources; the
  instance takes the example configuration and index 0, and \<^verbatim>\<open>enable\<close> overwrites the
  configuration before it is read).
\<close>

definition example_params :: DirettaParams where
  "example_params =
     \<lparr>POST_ONLINE_SILENCE_BUFFERS = 50,
      PCM_BUFFER_SECONDS = 3,
      DSD_BUFFER_SECONDS = 3 / 2,
      calculateBufferSize = (\<lambda>bytesPerSecond seconds. nat \<lfloor>of_nat bytesPerSecond * seconds\<rfloor>),
      calculatePrefill =
        (\<lambda>bytesPerSecond isDsd lowBitrate.
           (bytesPerSecond * (if lowBitrate then 80 else 40)) div 1000),
      OPEN_RETRIES = 3,
      OPEN_DELAY_MS = 100,
      SETSINK_RETRIES_FULL = 5,
      SETSINK_RETRIES_QUICK = 3,
      SETSINK_DELAY_FULL_MS = 300,
      SETSINK_DELAY_QUICK_MS = 200,
      CONNECT_RETRIES = 3,
      CONNECT_DELAY_MS = 200,
      REOPEN_SINK_RETRIES = 3,
      REOPEN_SINK_DELAY_MS = 200,
      calculate =
        (\<lambda>calculatorMTU rate nchannels bits.
           if rate * nchannels * bits = 0 then 0
           else (nat (calculatorMTU - 24) * 8000000) div (rate * nchannels * bits)),
      g_verbose = False\<rparr>"

definition example_env :: "FormatID \<Rightarrow> sdk_env" where
  "example_env accepted =
     \<lparr>answer = (\<lambda>n. True),
      targets = [(1, ''target'')],
      measuredMTU = 1500,
      sinkSupport = (\<lambda>fmt. accepted \<in> fmt_format fmt),
      online = True\<rparr>"

definition example_config :: DirettaConfig where
  "example_config =
     \<lparr>cycleTime = 1000, cycleTimeAuto = True, threadMode = 1, mtu = 0, mtuFallback = 1500,
      onlineWaitMs = 2000, formatSwitchDelayMs = 150, transferMode = AUTO\<rparr>"

definition no_format :: AudioFormat where
  "no_format = \<lparr>sampleRate = 0, bitDepth = 0, channels = 0, isDSD = False, dsdFormat = DSF\<rparr>"

definition DirettaSync_new :: DirettaSync where
  "DirettaSync_new =
     \<lparr>m_enabled = False, m_open = False, m_playing = False, m_paused = False,
      m_sdkOpen = False, m_running = False, m_config = example_config,
      m_effectiveMTU = 1500, m_mtuOverride = 0, m_targetIndex = 0, m_targetAddress = 0,
      m_calculator = None,
      m_sampleRate = 0, m_channels = 0, m_bytesPerSample = 0, m_inputBytesPerSample = 0,
      m_bytesPerBuffer = 0,
      m_isDsdMode = False, m_need24BitPack = False, m_need16To32Upsample = False,
      m_needDsdBitReversal = False, m_needDsdByteSwap = False, m_isLowBitrate = False,
      m_dsdConversionMode = Passthrough,
      m_formatGeneration = 0, m_cachedFormatGen = - 1,
      m_cachedDsdMode = False, m_cachedPack24bit = False, m_cachedUpsample16to32 = False,
      m_cachedChannels = 0, m_cachedBytesPerSample = 0, m_cachedDsdConversionMode = Passthrough,
      m_ringBuffer = resize (44100 * 2 * 4) 0,
      m_reconfiguring = False, m_ringUsers = 0,
      m_stopRequested = False, m_silenceBuffersRemaining = 0, m_prefillComplete = False,
      m_prefillTarget = 0, m_postOnlineDelayDone = False, m_stabilizationCount = 0,
      m_draining = False, m_workerActive = False,
      m_streamCount = 0, m_underrunCount = 0, m_pushCount = 0,
      m_currentFormat = no_format, m_previousFormat = no_format, m_hasPreviousFormat = False,
      trace = [], underrunReports = []\<rparr>"

text \<open>
  The state after \<^verbatim>\<open>enable\<close> on this transport, and three formats: 8 kHz mono PCM,
  CD audio, and stereo DSD512 from a DSF file.
\<close>

definition enabled_state :: DirettaSync where
  "enabled_state =
     snd (enable example_params (example_env FMT_PCM_SIGNED_32) example_config DirettaSync_new)"

definition pcm_8k_mono :: AudioFormat where
  "pcm_8k_mono = \<lparr>sampleRate = 8000, bitDepth = 16, channels = 1, isDSD = False, dsdFormat = DSF\<rparr>"

definition pcm_cd :: AudioFormat where
  "pcm_cd = \<lparr>sampleRate = 44100, bitDepth = 16, channels = 2, isDSD = False, dsdFormat = DSF\<rparr>"

definition dsd512 :: AudioFormat where
  "dsd512 = \<lparr>sampleRate = 22579200, bitDepth = 1, channels = 2, isDSD = True, dsdFormat = DSF\<rparr>"

text \<open>
  Two more DSD formats: the same DSD512 stream from a DFF file, and stereo DSD64.
\<close>

definition dff512 :: AudioFormat where
  "dff512 = \<lparr>sampleRate = 22579200, bitDepth = 1, channels = 2, isDSD = True, dsdFormat = DFF\<rparr>"

definition dsd64 :: AudioFormat where
  "dsd64 = \<lparr>sampleRate = 2822400, bitDepth = 1, channels = 2, isDSD = True, dsdFormat = DSF\<rparr>"

text \<open>
  The states in which CD audio, respectively DSD512, has been opened from the enabled
  state, on a sink that takes 32-bit PCM, respectively any DSD descriptor.
\<close>

definition playing_cd_state :: DirettaSync where
  "playing_cd_state =
     (case open' example_params (example_env FMT_PCM_SIGNED_32) 0 pcm_cd enabled_state of
        Some (result, s) \<Rightarrow> s
      | None \<Rightarrow> enabled_state)"

definition playing_dsd512_state :: DirettaSync where
  "playing_dsd512_state =
     (case open' example_params (example_env FMT_DSD1) 0 dsd512 enabled_state of
        Some (result, s) \<Rightarrow> s
      | None \<Rightarrow> enabled_state)"

section \<open>The warmup target is defined for every real MTU\<close>

text \<open>
  With an MTU of at least 34 bytes and a sample rate that fits in \<^verbatim>\<open>int\<close>, the double
  computed by the DSD warmup code is finite and its ceiling fits in \<^verbatim>\<open>int\<close>, so the
  conversion is defined, and the result is the spec's warmup count for two channels at the
  sample rate that the code reads. With no sample rate stored the cycle time is infinite
  and the result is the lower clamp.
\<close>

lemma dsdStabilizationTarget_no_rate:
  assumes "24 < effectiveMTU"
  shows "dsdStabilizationTarget 0 effectiveMTU = Some 50"
  using assms by (simp add: dsdStabilizationTarget_def)

lemma dsdStabilizationTarget_is_spec:
  assumes mtu: "34 \<le> effectiveMTU" and rate: "0 < currentSampleRate" "currentSampleRate < 2 ^ 31"
  shows "dsdStabilizationTarget currentSampleRate effectiveMTU
           = Some (spec_warmup_cycles currentSampleRate 2 effectiveMTU)"
proof -
  define r :: rat where "r = of_nat currentSampleRate"
  define e :: rat where "e = of_int (effectiveMTU - 24)"
  define a :: rat where "a = of_int (50 * max 1 (int currentSampleRate div 2822400))"
  define b :: rat where "b = a * 1000 / (e / (r * 2 / 8) * 1000000)"
  have "currentSampleRate \<le> 2147483648"
    using rate by simp
  then have "(of_nat currentSampleRate :: rat) \<le> of_nat 2147483648"
    by (rule of_nat_mono)
  then have r: "0 < r" "r \<le> 2147483648"
    using rate by (simp_all add: r_def)
  have e: "10 \<le> e"
    using mtu by (simp add: e_def)
  have "int currentSampleRate div 2822400 \<le> 760"
    using rate by simp
  then have "50 * max 1 (int currentSampleRate div 2822400) \<le> 38000"
    by simp
  then have "(of_int (50 * max 1 (int currentSampleRate div 2822400)) :: rat) \<le> of_int 38000"
    by (rule of_int_le_iff [THEN iffD2])
  moreover have "(0 :: rat) < of_int (50 * max 1 (int currentSampleRate div 2822400))"
    by (rule of_int_0_less_iff [THEN iffD2]) simp
  ultimately have a: "0 < a" "a \<le> 38000"
    by (simp_all add: a_def)
  have b_eq: "b = a * r / (4000 * e)"
    using r e by (simp add: b_def field_simps)
  have "a * r \<le> 38000 * 2147483648"
    using a r by (intro mult_mono) simp_all
  moreover have "0 \<le> a * r" using a r by simp
  ultimately have "a * r / (4000 * e) \<le> (38000 * 2147483648) / (4000 * 10)"
    using e by (intro frac_le) simp_all
  then have b_le: "b \<le> 2040109466" and b_ge: "0 \<le> b"
    using a r e by (simp_all add: b_eq)
  have ceil_le: "\<lceil>b\<rceil> \<le> 2040109466"
    using b_le by (simp add: ceiling_le_iff)
  have ceil_ge: "0 \<le> \<lceil>b\<rceil>"
    using b_ge by (simp add: le_ceiling_iff)
  have "dsdStabilizationTarget currentSampleRate effectiveMTU
          = map_option (\<lambda>t. max 50 (min t 3000)) (dbl_to_int (dbl_ceil (Fin b)))"
    using r e by (simp add: dsdStabilizationTarget_def Let_def b_def a_def r_def e_def)
  also have "dbl_to_int (dbl_ceil (Fin b)) = Some \<lceil>b\<rceil>"
    using ceil_le ceil_ge by simp
  finally have code: "dsdStabilizationTarget currentSampleRate effectiveMTU
                        = Some (max 50 (min \<lceil>b\<rceil> 3000))"
    by simp
  have "spec_warmup_cycles currentSampleRate 2 effectiveMTU = max 50 (min 3000 \<lceil>b\<rceil>)"
    by (simp add: spec_warmup_cycles_def Let_def b_def a_def r_def e_def)
  with code show ?thesis
    by (simp add: min.commute)
qed

lemma dsdStabilizationTarget_defined:
  assumes "34 \<le> effectiveMTU" "currentSampleRate < 2 ^ 31"
  shows "dsdStabilizationTarget currentSampleRate effectiveMTU \<noteq> None"
proof (cases "currentSampleRate = 0")
  case True
  with assms(1) show ?thesis by (simp add: dsdStabilizationTarget_no_rate)
next
  case False
  with assms show ?thesis by (simp add: dsdStabilizationTarget_is_spec)
qed

lemma stabilizationTarget_defined:
  assumes "m_isDsdMode s \<longrightarrow> 34 \<le> m_effectiveMTU s \<and> m_sampleRate s < 2 ^ 31"
  shows "\<exists>t. stabilizationTarget P s = Some t"
  using assms dsdStabilizationTarget_defined [of "m_effectiveMTU s" "m_sampleRate s"]
  by (auto simp: stabilizationTarget_def)

section \<open>Properties of the cycle callback and the push interface\<close>

lemma RingAccessGuard_cases:
  "RingAccessGuard r1 r2 users = (if r1 \<or> r2 then (users, False) else (users + 1, True))"
  by (simp add: RingAccessGuard_def Let_def)

lemma stabilizationTarget_workerActive [simp]:
  "stabilizationTarget P (s\<lparr>m_workerActive := a\<rparr>) = stabilizationTarget P s"
  by (simp add: stabilizationTarget_def)

lemma stabilizationTarget_ringUsers [simp]:
  "stabilizationTarget P (s\<lparr>m_ringUsers := u\<rparr>) = stabilizationTarget P s"
  by (simp add: stabilizationTarget_def)

lemmas getNewStream_unfold =
  getNewStream_def getNewStream_return_def RingAccessGuard_cases RingAccessGuard_destroy_def
  Let_def pop_def getAvailable_def

text \<open>
  C1. On every invocation the cycle callback evaluates its guards in the order of the
  spec's decision tree: reconfiguration observed by the guard, shutdown silence remaining
  (decremented by one), stop requested, prefill not complete, warmup not complete, fewer
  bytes available than a cycle needs. Exactly when every guard passes, the first
  \<open>m_bytesPerBuffer\<close> bytes of the ring are popped into the output; on every other branch
  the ring keeps its content and the output is \<open>m_bytesPerBuffer\<close> silence bytes. The
  output always has \<open>m_bytesPerBuffer\<close> bytes and the callback returns \<open>True\<close>. The order
  shows in the side effects: the silence counter goes down only on the second branch, the
  warmup state changes only on the fifth, the underrun counter goes up only on the sixth.
  The premise keeps the DSD warmup computation away from an undefined conversion: in DSD
  mode the MTU is at least 34 bytes and the stored sample rate fits in \<^verbatim>\<open>int\<close>.
\<close>

theorem C1_getNewStream_decision_order:
  assumes "m_isDsdMode s \<longrightarrow> 34 \<le> m_effectiveMTU s \<and> m_sampleRate s < 2 ^ 31"
  shows "(spec_cycle_branch (r1 \<or> r2) s = Normal
            \<longleftrightarrow> \<not> r1 \<and> \<not> r2 \<and> \<not> 0 < m_silenceBuffersRemaining s \<and> \<not> m_stopRequested s
                \<and> m_prefillComplete s \<and> m_postOnlineDelayDone s
                \<and> m_bytesPerBuffer s \<le> getAvailable (m_ringBuffer s))
     \<and> (\<exists>dest s'. getNewStream P r1 r2 s = Inr (dest, True, s')
     \<and> length dest = m_bytesPerBuffer s
     \<and> dest = (if spec_cycle_branch (r1 \<or> r2) s = Normal
               then take (m_bytesPerBuffer s) (rb_data (m_ringBuffer s))
               else replicate (m_bytesPerBuffer s) (silenceByte (m_ringBuffer s)))
     \<and> m_ringBuffer s' = (if spec_cycle_branch (r1 \<or> r2) s = Normal
               then (m_ringBuffer s)\<lparr>rb_data := drop (m_bytesPerBuffer s) (rb_data (m_ringBuffer s))\<rparr>
               else m_ringBuffer s)
     \<and> getAvailable (m_ringBuffer s') = (if spec_cycle_branch (r1 \<or> r2) s = Normal
               then getAvailable (m_ringBuffer s) - m_bytesPerBuffer s
               else getAvailable (m_ringBuffer s))
     \<and> m_silenceBuffersRemaining s' = (if spec_cycle_branch (r1 \<or> r2) s = ShutdownSilence
               then m_silenceBuffersRemaining s - 1 else m_silenceBuffersRemaining s)
     \<and> (spec_cycle_branch (r1 \<or> r2) s \<noteq> Warmup \<longrightarrow>
           m_stabilizationCount s' = m_stabilizationCount s
           \<and> m_postOnlineDelayDone s' = m_postOnlineDelayDone s)
     \<and> m_underrunCount s' = (if spec_cycle_branch (r1 \<or> r2) s = Underrun
               then m_underrunCount s + 1 else m_underrunCount s)
     \<and> m_workerActive s' = False \<and> m_ringUsers s' = m_ringUsers s)"
proof -
  from stabilizationTarget_defined [OF assms] obtain t where "stabilizationTarget P s = Some t"
    by blast
  then show ?thesis
    by (auto simp: getNewStream_unfold spec_cycle_branch_def)
qed

text \<open>
  A cycle in the warmup branch: prefill complete, PCM mode, the ring empty.
\<close>

theorem C1_getNewStream_decision_order_witness:
  "\<not> m_isDsdMode (DirettaSync_new\<lparr>m_prefillComplete := True, m_bytesPerBuffer := 4\<rparr>)
   \<and> spec_cycle_branch False (DirettaSync_new\<lparr>m_prefillComplete := True, m_bytesPerBuffer := 4\<rparr>)
       = Warmup
   \<and> (\<exists>s'. getNewStream example_params False False
              (DirettaSync_new\<lparr>m_prefillComplete := True, m_bytesPerBuffer := 4\<rparr>)
            = Inr (replicate 4 0, True, s')
          \<and> m_silenceBuffersRemaining s' = 0 \<and> m_underrunCount s' = 0
          \<and> m_ringBuffer s' = resize (44100 * 2 * 4) 0)"
proof -
  let ?s = "DirettaSync_new\<lparr>m_prefillComplete := True, m_bytesPerBuffer := 4\<rparr>"
  have pcm: "m_isDsdMode ?s \<longrightarrow> 34 \<le> m_effectiveMTU ?s \<and> m_sampleRate ?s < 2 ^ 31"
    by (simp add: DirettaSync_new_def)
  have branch: "spec_cycle_branch False ?s = Warmup"
    by (simp add: spec_cycle_branch_def DirettaSync_new_def)
  have not_dsd: "\<not> m_isDsdMode ?s"
    by (simp add: DirettaSync_new_def)
  from C1_getNewStream_decision_order
         [OF pcm, of False False example_params]
       not_dsd branch
  show ?thesis
    by (auto simp: DirettaSync_new_def silenceByte_def resize_def)
qed

lemma reloadFormatCache_fields [simp]:
  "underrunReports (reloadFormatCache s) = underrunReports s"
  "m_prefillComplete (reloadFormatCache s) = m_prefillComplete s"
  "m_prefillTarget (reloadFormatCache s) = m_prefillTarget s"
  "m_ringBuffer (reloadFormatCache s) = m_ringBuffer s"
  "m_ringUsers (reloadFormatCache s) = m_ringUsers s"
  by (simp_all add: reloadFormatCache_def Let_def)

lemma checkPrefill_fields [simp]:
  "underrunReports (checkPrefill P w s) = underrunReports s"
  "m_prefillTarget (checkPrefill P w s) = m_prefillTarget s"
  "m_ringBuffer (checkPrefill P w s) = m_ringBuffer s"
  "m_ringUsers (checkPrefill P w s) = m_ringUsers s"
  by (simp_all add: checkPrefill_def Let_def)

lemma checkPrefill_prefillComplete:
  "m_prefillComplete (checkPrefill P w s) =
     (m_prefillComplete s \<or> 0 < w \<and> m_prefillTarget s \<le> getAvailable (m_ringBuffer s))"
  by (simp add: checkPrefill_def Let_def)

lemmas sendAudio_unfold =
  sendAudio_def RingAccessGuard_cases RingAccessGuard_destroy_def Let_def split_beta

lemma getNewStream_shutdown_silence:
  assumes "0 < m_silenceBuffersRemaining s"
  shows "getNewStream P r r s =
           Inr (replicate (m_bytesPerBuffer s) (silenceByte (m_ringBuffer s)), True,
                s\<lparr>m_workerActive := False,
                  m_silenceBuffersRemaining :=
                    (if r then m_silenceBuffersRemaining s else m_silenceBuffersRemaining s - 1)\<rparr>)"
  using assms by (simp add: getNewStream_unfold)

lemma awaitSilence_returns:
  "\<exists>s'. awaitSilence P cycles s = Inr s'
     \<and> m_underrunCount s' = m_underrunCount s \<and> underrunReports s' = underrunReports s
     \<and> m_isDsdMode s' = m_isDsdMode s"
proof (induction cycles arbitrary: s)
  case 0
  show ?case by simp
next
  case (Suc cycles)
  show ?case
  proof (cases "0 < m_silenceBuffersRemaining s")
    case True
    let ?dest = "replicate (m_bytesPerBuffer s) (silenceByte (m_ringBuffer s))"
    let ?s1 = "effect (Callback ?dest)
                 (s\<lparr>m_workerActive := False,
                    m_silenceBuffersRemaining :=
                      (if m_reconfiguring s then m_silenceBuffersRemaining s
                       else m_silenceBuffersRemaining s - 1)\<rparr>)"
    from Suc.IH [of ?s1] obtain s' where
      "awaitSilence P cycles ?s1 = Inr s'" "m_underrunCount s' = m_underrunCount ?s1"
      "underrunReports s' = underrunReports ?s1" "m_isDsdMode s' = m_isDsdMode ?s1"
      by blast
    with True show ?thesis
      by (simp add: getNewStream_shutdown_silence effect_def)
  next
    case False
    then show ?thesis by simp
  qed
qed

text \<open>
  C2. A cycle that reaches the normal path with fewer bytes available than
  \<open>m_bytesPerBuffer\<close> adds one to the underrun counter (a 32-bit counter), outputs
  \<open>m_bytesPerBuffer\<close> copies of the silence byte and leaves the ring as it is. No cycle
  callback and no push writes an underrun report; \<^verbatim>\<open>stopPlayback\<close> always returns, writes
  the accumulated count when it is not zero, and resets the counter to zero.
\<close>

theorem C2_underrun_counted_and_reported_on_stop:
  "(\<not> r1 \<and> \<not> r2 \<and> \<not> 0 < m_silenceBuffersRemaining s \<and> \<not> m_stopRequested s
      \<and> m_prefillComplete s \<and> m_postOnlineDelayDone s
      \<and> getAvailable (m_ringBuffer s) < m_bytesPerBuffer s
    \<longrightarrow> (\<exists>s'. getNewStream P r1 r2 s =
                 Inr (replicate (m_bytesPerBuffer s) (silenceByte (m_ringBuffer s)), True, s')
              \<and> m_underrunCount s' = m_underrunCount s + 1
              \<and> m_ringBuffer s' = m_ringBuffer s
              \<and> underrunReports s' = underrunReports s))
   \<and> (\<forall>dest b s'. getNewStream P r1 r2 s = Inr (dest, b, s')
          \<longrightarrow> underrunReports s' = underrunReports s)
   \<and> underrunReports (snd (sendAudio P E r1 r2 data numSamples s)) = underrunReports s
   \<and> (\<exists>s'. stopPlayback P cycles immediate s = Inr s'
          \<and> m_underrunCount s' = 0
          \<and> underrunReports s' =
              underrunReports s @ (if 0 < m_underrunCount s then [m_underrunCount s] else []))"
proof (intro conjI)
  show "\<not> r1 \<and> \<not> r2 \<and> \<not> 0 < m_silenceBuffersRemaining s \<and> \<not> m_stopRequested s
      \<and> m_prefillComplete s \<and> m_postOnlineDelayDone s
      \<and> getAvailable (m_ringBuffer s) < m_bytesPerBuffer s
    \<longrightarrow> (\<exists>s'. getNewStream P r1 r2 s =
                 Inr (replicate (m_bytesPerBuffer s) (silenceByte (m_ringBuffer s)), True, s')
              \<and> m_underrunCount s' = m_underrunCount s + 1
              \<and> m_ringBuffer s' = m_ringBuffer s
              \<and> underrunReports s' = underrunReports s)"
    by (simp add: getNewStream_unfold)
  show "\<forall>dest b s'. getNewStream P r1 r2 s = Inr (dest, b, s')
          \<longrightarrow> underrunReports s' = underrunReports s"
    by (auto simp: getNewStream_unfold split: option.splits if_splits)
  show "underrunReports (snd (sendAudio P E r1 r2 data numSamples s)) = underrunReports s"
    by (simp add: sendAudio_unfold)
  show "\<exists>s'. stopPlayback P cycles immediate s = Inr s'
          \<and> m_underrunCount s' = 0
          \<and> underrunReports s' =
              underrunReports s @ (if 0 < m_underrunCount s then [m_underrunCount s] else [])"
  proof -
    let ?s2 = "if 0 < m_underrunCount s
               then s\<lparr>m_underrunCount := 0,
                      underrunReports := underrunReports s @ [m_underrunCount s]\<rparr>
               else s\<lparr>m_underrunCount := 0\<rparr>"
    let ?s3 = "requestShutdownSilence (if m_isDsdMode ?s2 then 50 else 20) ?s2"
    from awaitSilence_returns [of P cycles ?s3] obtain s' where
      "awaitSilence P cycles ?s3 = Inr s'" "m_underrunCount s' = m_underrunCount ?s3"
      "underrunReports s' = underrunReports ?s3"
      by blast
    then show ?thesis
      by (auto simp: stopPlayback_def Let_def effect_def requestShutdownSilence_def)
  qed
qed

text \<open>
  An underrun on the empty ring with six underruns counted before, and the stop that
  reports them.
\<close>

theorem C2_underrun_counted_and_reported_on_stop_witness:
  "(\<exists>s'. getNewStream example_params False False
            (DirettaSync_new\<lparr>m_prefillComplete := True, m_postOnlineDelayDone := True,
                              m_bytesPerBuffer := 4, m_underrunCount := 6\<rparr>)
          = Inr (replicate 4 0, True, s')
        \<and> m_underrunCount s' = 7 \<and> underrunReports s' = [])
   \<and> (\<exists>s'. stopPlayback example_params 0 True
              (DirettaSync_new\<lparr>m_prefillComplete := True, m_postOnlineDelayDone := True,
                                m_bytesPerBuffer := 4, m_underrunCount := 6\<rparr>) = Inr s'
        \<and> m_underrunCount s' = 0 \<and> underrunReports s' = [6])"
  using C2_underrun_counted_and_reported_on_stop
          [of False False
              "DirettaSync_new\<lparr>m_prefillComplete := True, m_postOnlineDelayDone := True,
                                m_bytesPerBuffer := 4, m_underrunCount := 6\<rparr>"
              example_params "example_env FMT_PCM_SIGNED_32" "\<lambda>i. 0" 0 0 True]
  by (auto simp: DirettaSync_new_def getAvailable_def resize_def silenceByte_def)

text \<open>
  C7. A push from a state whose prefill is not complete sets \<open>m_prefillComplete\<close> exactly
  when it wrote at least one byte and the ring then holds at least \<open>m_prefillTarget\<close>
  bytes; the target is not changed by the push, a completed prefill stays completed under
  further pushes, and no cycle callback changes the flag. As long as the flag is not set,
  every cycle callback outputs \<open>m_bytesPerBuffer\<close> silence bytes and pops nothing.
\<close>

theorem C7_prefill_released_by_push:
  "(\<not> m_prefillComplete s \<longrightarrow>
      (m_prefillComplete (snd (sendAudio P E r1 r2 data numSamples s))
         \<longleftrightarrow> 0 < fst (sendAudio P E r1 r2 data numSamples s)
             \<and> m_prefillTarget s
                 \<le> getAvailable (m_ringBuffer (snd (sendAudio P E r1 r2 data numSamples s)))))
   \<and> m_prefillTarget (snd (sendAudio P E r1 r2 data numSamples s)) = m_prefillTarget s
   \<and> (m_prefillComplete s \<longrightarrow> m_prefillComplete (snd (sendAudio P E r1 r2 data numSamples s)))
   \<and> (\<forall>dest b s'. getNewStream P r1 r2 s = Inr (dest, b, s')
          \<longrightarrow> m_prefillComplete s' = m_prefillComplete s)
   \<and> (\<not> m_prefillComplete s \<longrightarrow>
        (\<exists>s'. getNewStream P r1 r2 s =
                 Inr (replicate (m_bytesPerBuffer s) (silenceByte (m_ringBuffer s)), True, s')
              \<and> m_ringBuffer s' = m_ringBuffer s))"
proof (intro conjI)
  show "\<not> m_prefillComplete s \<longrightarrow>
      (m_prefillComplete (snd (sendAudio P E r1 r2 data numSamples s))
         \<longleftrightarrow> 0 < fst (sendAudio P E r1 r2 data numSamples s)
             \<and> m_prefillTarget s
                 \<le> getAvailable (m_ringBuffer (snd (sendAudio P E r1 r2 data numSamples s))))"
    by (simp add: sendAudio_unfold checkPrefill_prefillComplete)
  show "m_prefillTarget (snd (sendAudio P E r1 r2 data numSamples s)) = m_prefillTarget s"
    by (simp add: sendAudio_unfold)
  show "m_prefillComplete s \<longrightarrow> m_prefillComplete (snd (sendAudio P E r1 r2 data numSamples s))"
    by (simp add: sendAudio_unfold checkPrefill_prefillComplete)
  show "\<forall>dest b s'. getNewStream P r1 r2 s = Inr (dest, b, s')
          \<longrightarrow> m_prefillComplete s' = m_prefillComplete s"
    by (auto simp: getNewStream_unfold split: option.splits if_splits)
  show "\<not> m_prefillComplete s \<longrightarrow>
        (\<exists>s'. getNewStream P r1 r2 s =
                 Inr (replicate (m_bytesPerBuffer s) (silenceByte (m_ringBuffer s)), True, s')
              \<and> m_ringBuffer s' = m_ringBuffer s)"
    by (simp add: getNewStream_unfold)
qed

text \<open>
  C9. \<^verbatim>\<open>sendAudio\<close> returns 0 and leaves the whole state, the ring and the user count
  included, as it was whenever the core is draining, a stop is requested, the transport is
  not online, or the guard observes a reconfiguration at either of its two loads. When
  only the second load sees the flag, the guard has incremented the user count, decrements
  it again and is not active.
\<close>

theorem C9_sendAudio_rejected:
  "(m_draining s \<or> m_stopRequested s \<or> \<not> online E \<or> r1 \<or> r2
      \<longrightarrow> sendAudio P E r1 r2 data numSamples s = (0, s))
   \<and> RingAccessGuard False True (m_ringUsers s) = (m_ringUsers s + 1 - 1, False)
   \<and> RingAccessGuard True r2 (m_ringUsers s) = (m_ringUsers s, False)"
  by (auto simp: sendAudio_unfold RingAccessGuard_def)

text \<open>
  One frame of 16-bit stereo pushed into the empty ring with a prefill target of 4 bytes
  completes the prefill; before the push the callback outputs silence.
\<close>

theorem C7_prefill_released_by_push_witness:
  "\<not> m_prefillComplete (DirettaSync_new\<lparr>m_channels := 2, m_bytesPerSample := 2, m_prefillTarget := 4\<rparr>)
   \<and> fst (sendAudio example_params (example_env FMT_PCM_SIGNED_16) False False (\<lambda>i. 1) 1
            (DirettaSync_new\<lparr>m_channels := 2, m_bytesPerSample := 2, m_prefillTarget := 4\<rparr>)) = 4
   \<and> m_prefillComplete
        (snd (sendAudio example_params (example_env FMT_PCM_SIGNED_16) False False (\<lambda>i. 1) 1
                (DirettaSync_new\<lparr>m_channels := 2, m_bytesPerSample := 2, m_prefillTarget := 4\<rparr>)))
   \<and> (\<exists>s'. getNewStream example_params False False
              (DirettaSync_new\<lparr>m_channels := 2, m_bytesPerSample := 2, m_prefillTarget := 4\<rparr>)
            = Inr (replicate 0 0, True, s'))"
proof -
  let ?s = "DirettaSync_new\<lparr>m_channels := 2, m_bytesPerSample := 2, m_prefillTarget := 4\<rparr>"
  let ?r = "sendAudio example_params (example_env FMT_PCM_SIGNED_16) False False (\<lambda>i. 1) 1 ?s"
  have not_complete: "\<not> m_prefillComplete ?s"
    by (simp add: DirettaSync_new_def)
  have written: "fst ?r = 4"
    by (simp add: sendAudio_unfold DirettaSync_new_def example_env_def reloadFormatCache_def
        pushCached_def push_def resize_def)
  have avail: "getAvailable (m_ringBuffer (snd ?r)) = 4"
    by (simp add: sendAudio_unfold DirettaSync_new_def example_env_def reloadFormatCache_def
        pushCached_def push_def resize_def getAvailable_def)
  have target: "m_prefillTarget ?s = 4" "m_bytesPerBuffer ?s = 0" "silenceByte (m_ringBuffer ?s) = 0"
    by (simp_all add: DirettaSync_new_def silenceByte_def resize_def)
  from C7_prefill_released_by_push
         [of ?s example_params "example_env FMT_PCM_SIGNED_16" False False "\<lambda>i. 1" 1]
       not_complete written avail target
  show ?thesis by auto
qed

text \<open>
  A push while draining, and a push whose guard sees the reconfiguration at its second
  load.
\<close>

theorem C9_sendAudio_rejected_witness:
  "m_draining (DirettaSync_new\<lparr>m_draining := True\<rparr>)
   \<and> sendAudio example_params (example_env FMT_PCM_SIGNED_16) False False (\<lambda>i. 1) 1
        (DirettaSync_new\<lparr>m_draining := True\<rparr>)
      = (0, DirettaSync_new\<lparr>m_draining := True\<rparr>)
   \<and> sendAudio example_params (example_env FMT_PCM_SIGNED_16) False True (\<lambda>i. 1) 1 DirettaSync_new
      = (0, DirettaSync_new)"
  using C9_sendAudio_rejected
          [of "DirettaSync_new\<lparr>m_draining := True\<rparr>" "example_env FMT_PCM_SIGNED_16" False False
              example_params "\<lambda>i. 1" 1]
        C9_sendAudio_rejected
          [of DirettaSync_new "example_env FMT_PCM_SIGNED_16" False True example_params "\<lambda>i. 1" 1]
  by simp

section \<open>Properties of enabling\<close>

text \<open>
  C10. For every configuration argument, \<^verbatim>\<open>enable\<close> on an enabled core returns \<open>True\<close>
  and the state is the one it was called with: the trace has no new entry, so there was no
  discovery, no MTU measurement and no session open, and \<open>m_config\<close> still holds the
  configuration stored before.
\<close>

theorem C10_enable_idempotent:
  assumes "m_enabled s"
  shows "enable P E config s = (True, s)"
  using assms by (simp add: enable_def)

text \<open>
  A second \<^verbatim>\<open>enable\<close> with another configuration, on the state the first one produced.
\<close>

theorem C10_enable_idempotent_witness:
  "m_enabled (snd (enable example_params (example_env FMT_PCM_SIGNED_16) example_config DirettaSync_new))
   \<and> enable example_params (example_env FMT_PCM_SIGNED_16)
        (example_config\<lparr>mtu := 9000, cycleTime := 5\<rparr>)
        (snd (enable example_params (example_env FMT_PCM_SIGNED_16) example_config DirettaSync_new))
      = (True, snd (enable example_params (example_env FMT_PCM_SIGNED_16) example_config DirettaSync_new))"
proof -
  have enabled:
    "m_enabled (snd (enable example_params (example_env FMT_PCM_SIGNED_16) example_config DirettaSync_new))"
    by (simp add: enable_def discoverTarget_def measureMTU_def openSyncConnection_def sdk_def
        effect_def example_env_def example_params_def example_config_def DirettaSync_new_def
        Let_def numeral_3_eq_3)
  from C10_enable_idempotent [OF enabled] enabled show ?thesis by simp
qed

section \<open>Properties of the ring configuration\<close>

lemma round_up_ms:
  fixes rate :: nat
  shows "rate \<le> 1000 * ((rate + 999) div 1000)" "1000 * ((rate + 999) div 1000) < rate + 1000"
proof -
  have eq: "1000 * ((rate + 999) div 1000) + (rate + 999) mod 1000 = rate + 999"
    by (rule mult_div_mod_eq)
  have lt: "(rate + 999) mod 1000 < 1000"
    by simp
  show "rate \<le> 1000 * ((rate + 999) div 1000)"
    using eq lt by linarith
  show "1000 * ((rate + 999) div 1000) < rate + 1000"
    using eq by linarith
qed

lemma round_up_multiple:
  fixes x m :: nat
  assumes "0 < m"
  shows "m dvd ((x + (m - 1)) div m) * m" "x \<le> ((x + (m - 1)) div m) * m"
    "((x + (m - 1)) div m) * m < x + m"
proof -
  show "m dvd ((x + (m - 1)) div m) * m" by simp
  have eq: "((x + (m - 1)) div m) * m = (x + (m - 1)) - (x + (m - 1)) mod m"
    by (simp add: minus_mod_eq_div_mult)
  have lt: "(x + (m - 1)) mod m < m" using assms by simp
  show "x \<le> ((x + (m - 1)) div m) * m" using eq lt by linarith
  show "((x + (m - 1)) div m) * m < x + m" using eq assms by linarith
qed

lemma configureRingPCM_bytesPerBuffer:
  assumes "m_ringUsers s \<le> 0"
    and "rate + 999 < 2 ^ 31"
    and "((rate + 999) div 1000) * nchannels < 2 ^ 31"
    and "((rate + 999) div 1000) * nchannels * direttaBps < 2 ^ 31"
  shows "\<exists>s'. configureRingPCM P rate nchannels direttaBps inputBps s = Some (Inr s')
           \<and> m_bytesPerBuffer s' = ((rate + 999) div 1000) * nchannels * direttaBps"
  using assms
  by (simp add: configureRingPCM_def beginReconfigure_def endReconfigure_def fits_int_def pcm_cycle_fits_def Let_def)

lemma configureRingDSD_bytesPerBuffer:
  assumes "m_ringUsers s \<le> 0" "0 < nchannels"
    and "4 * nchannels < 2 ^ 31"
    and "((((byteRate div 1000) * nchannels) mod 2 ^ 32 + (4 * nchannels - 1))
            div (4 * nchannels)) * (4 * nchannels) < 2 ^ 31"
  shows "\<exists>s'. configureRingDSD P byteRate nchannels s = Some (Inr s')
           \<and> m_bytesPerBuffer s' =
               max 64 (((((byteRate div 1000) * nchannels) mod 2 ^ 32 + (4 * nchannels - 1))
                          div (4 * nchannels)) * (4 * nchannels))"
  using assms
  by (simp add: configureRingDSD_def beginReconfigure_def endReconfigure_def fits_int_def
        Let_def max_def)

text \<open>
  C8, as the code has it. With no reader inside the ring, and a cycle size whose
  computation stays within \<^verbatim>\<open>int\<close>, \<^verbatim>\<open>configureRingPCM\<close> sets the per-cycle byte count
  to \<open>(rate + 999) div 1000\<close> frames of \<open>channels * direttaBps\<close> bytes: the least whole
  number of frames that holds a thousandth of the bytes per second. There is no lower
  bound on this path. \<^verbatim>\<open>configureRingDSD\<close> takes \<open>(byteRate div 1000) * channels\<close> (in
  32-bit arithmetic), the bytes of a millisecond counted in whole bytes for each channel,
  rounds it up to a multiple of \<open>4 * channels\<close>, and raises the result to 64 when it is
  smaller; here the byte rate is a \<^verbatim>\<open>uint32_t\<close>, and the count fits in \<^verbatim>\<open>int\<close> when
  the unrounded one and a frame of \<open>4 * channels\<close> bytes together stay below \<open>2 ^ 31\<close>.
\<close>

theorem C8_bytes_per_cycle:
  assumes "m_ringUsers s \<le> 0"
  shows "(rate + 999 < 2 ^ 31
          \<and> ((rate + 999) div 1000) * nchannels < 2 ^ 31
          \<and> ((rate + 999) div 1000) * nchannels * direttaBps < 2 ^ 31 \<longrightarrow>
          (\<exists>s'. configureRingPCM P rate nchannels direttaBps inputBps s = Some (Inr s')
            \<and> m_bytesPerBuffer s' = ((rate + 999) div 1000) * (nchannels * direttaBps)
            \<and> (nchannels * direttaBps) dvd m_bytesPerBuffer s'
            \<and> rate * nchannels * direttaBps \<le> 1000 * m_bytesPerBuffer s'
            \<and> (0 < nchannels * direttaBps \<longrightarrow>
                 1000 * m_bytesPerBuffer s'
                   < rate * nchannels * direttaBps + 1000 * (nchannels * direttaBps))))
       \<and> (0 < nchannels \<and> byteRate < 2 ^ 32
          \<and> ((byteRate div 1000) * nchannels) mod 2 ^ 32 + 4 * nchannels < 2 ^ 31 \<longrightarrow>
            (\<exists>s' r. configureRingDSD P byteRate nchannels s = Some (Inr s')
               \<and> (4 * nchannels) dvd r
               \<and> ((byteRate div 1000) * nchannels) mod 2 ^ 32 \<le> r
               \<and> r < ((byteRate div 1000) * nchannels) mod 2 ^ 32 + 4 * nchannels
               \<and> m_bytesPerBuffer s' = max 64 r))"
proof (intro conjI impI)
  let ?f = "nchannels * direttaBps"
  let ?n = "(rate + 999) div 1000"
  assume range: "rate + 999 < 2 ^ 31 \<and> ?n * nchannels < 2 ^ 31
                   \<and> ?n * nchannels * direttaBps < 2 ^ 31"
  from range have r1: "rate + 999 < 2 ^ 31" by (rule conjunct1)
  from range have r2: "?n * nchannels < 2 ^ 31" by (rule conjunct2 [THEN conjunct1])
  from range have r3: "?n * nchannels * direttaBps < 2 ^ 31" by (rule conjunct2 [THEN conjunct2])
  from configureRingPCM_bytesPerBuffer [OF assms r1 r2 r3, of P inputBps]
  obtain s' where s':
    "configureRingPCM P rate nchannels direttaBps inputBps s = Some (Inr s')"
    "m_bytesPerBuffer s' = ?n * nchannels * direttaBps"
    by blast
  have bpb: "m_bytesPerBuffer s' = ?n * ?f"
    using s'(2) by (simp add: mult.assoc)
  have "rate * ?f \<le> (1000 * ?n) * ?f"
    using round_up_ms(1) [of rate] by (rule mult_le_mono1)
  then have le: "rate * nchannels * direttaBps \<le> 1000 * m_bytesPerBuffer s'"
    by (simp add: bpb mult.assoc)
  have lt: "1000 * m_bytesPerBuffer s' < rate * nchannels * direttaBps + 1000 * ?f" if "0 < ?f"
  proof -
    have "(1000 * ?n) * ?f < (rate + 1000) * ?f"
      using round_up_ms(2) [of rate] that by (rule mult_less_mono1)
    then show ?thesis
      by (simp add: bpb mult.assoc add_mult_distrib)
  qed
  have dvd: "?f dvd m_bytesPerBuffer s'"
    by (simp add: bpb)
  show "\<exists>s'. configureRingPCM P rate nchannels direttaBps inputBps s = Some (Inr s')
            \<and> m_bytesPerBuffer s' = ?n * ?f
            \<and> ?f dvd m_bytesPerBuffer s'
            \<and> rate * nchannels * direttaBps \<le> 1000 * m_bytesPerBuffer s'
            \<and> (0 < ?f \<longrightarrow> 1000 * m_bytesPerBuffer s' < rate * nchannels * direttaBps + 1000 * ?f)"
  proof (intro exI [of _ s'] conjI impI)
    show "configureRingPCM P rate nchannels direttaBps inputBps s = Some (Inr s')" by (rule s'(1))
    show "m_bytesPerBuffer s' = ?n * ?f" by (rule bpb)
    show "?f dvd m_bytesPerBuffer s'" by (rule dvd)
    show "rate * nchannels * direttaBps \<le> 1000 * m_bytesPerBuffer s'" by (rule le)
    show "1000 * m_bytesPerBuffer s' < rate * nchannels * direttaBps + 1000 * ?f" if "0 < ?f"
      using that by (rule lt)
  qed
next
  let ?x = "((byteRate div 1000) * nchannels) mod 2 ^ 32"
  let ?m = "4 * nchannels"
  let ?r = "((?x + (?m - 1)) div ?m) * ?m"
  assume hyp: "0 < nchannels \<and> byteRate < 2 ^ 32 \<and> ?x + ?m < 2 ^ 31"
  from hyp have ch: "0 < nchannels" by (rule conjunct1)
  from hyp have range: "?x + ?m < 2 ^ 31" by (rule conjunct2 [THEN conjunct2])
  have m: "0 < ?m" using ch by simp
  note r = round_up_multiple [OF m, of ?x]
  have m_fits: "?m < 2 ^ 31" using range by linarith
  have r_fits: "?r < 2 ^ 31" using r(3) range by linarith
  from configureRingDSD_bytesPerBuffer [OF assms ch m_fits r_fits, of P]
  obtain s' where s':
    "configureRingDSD P byteRate nchannels s = Some (Inr s')" "m_bytesPerBuffer s' = max 64 ?r"
    by blast
  show "\<exists>s' r. configureRingDSD P byteRate nchannels s = Some (Inr s')
               \<and> ?m dvd r \<and> ?x \<le> r \<and> r < ?x + ?m \<and> m_bytesPerBuffer s' = max 64 r"
  proof (intro exI [of _ s'] exI [of _ ?r] conjI)
    show "configureRingDSD P byteRate nchannels s = Some (Inr s')" by (rule s'(1))
    show "?m dvd ?r" by (rule r(1))
    show "?x \<le> ?r" by (rule r(2))
    show "?r < ?x + ?m" by (rule r(3))
    show "m_bytesPerBuffer s' = max 64 ?r" by (rule s'(2))
  qed
qed
section \<open>Properties of the format negotiation\<close>

lemmas sink_unfold =
  checkSinkSupport_def setSinkConfigure_def dsdSinkAccepted_def effect_def sink_trials_def
  descriptor_def Let_def



text \<open>
  Helper facts: the bounded waits and the retry loops change nothing but the trace.
\<close>

lemma waitWorkerIdle_trace_only:
  "waitWorkerIdle n s = s\<lparr>trace := trace (waitWorkerIdle n s)\<rparr>"
proof (induction n arbitrary: s)
  case 0
  show ?case by simp
next
  case (Suc n)
  show ?case
  proof (cases "m_workerActive s")
    case True
    let ?s1 = "effect (Sleep_ms 10) s"
    have "waitWorkerIdle n ?s1 = ?s1\<lparr>trace := trace (waitWorkerIdle n ?s1)\<rparr>"
      by (rule Suc)
    also have "\<dots> = s\<lparr>trace := trace (waitWorkerIdle n ?s1)\<rparr>"
      by (simp add: effect_def)
    finally show ?thesis using True by simp
  next
    case False
    then show ?thesis by simp
  qed
qed

lemma retry_trace_only:
  "snd (retry E n delayMs c first s) = s\<lparr>trace := trace (snd (retry E n delayMs c first s))\<rparr>"
proof (induction n arbitrary: s first)
  case 0
  show ?case by simp
next
  case (Suc n)
  let ?s1 = "if first then s else effect (Sleep_ms delayMs) s"
  let ?s2 = "snd (sdk E c ?s1)"
  have s2: "?s2 = s\<lparr>trace := trace ?s2\<rparr>"
    by (simp add: sdk_def effect_def)
  show ?case
  proof (cases "fst (sdk E c ?s1)")
    case True
    then have "snd (retry E (Suc n) delayMs c first s) = ?s2"
      by (simp add: split_beta Let_def)
    with s2 show ?thesis by simp
  next
    case False
    then have eq: "snd (retry E (Suc n) delayMs c first s) = snd (retry E n delayMs c False ?s2)"
      by (simp add: split_beta Let_def)
    have "snd (retry E n delayMs c False ?s2)
            = ?s2\<lparr>trace := trace (snd (retry E n delayMs c False ?s2))\<rparr>"
      by (rule Suc)
    also have "\<dots> = s\<lparr>trace := trace (snd (retry E n delayMs c False ?s2))\<rparr>"
      by (subst s2) simp
    finally show ?thesis using eq by simp
  qed
qed


lemma trace_only_fields:
  assumes "s' = s\<lparr>trace := t\<rparr>"
  shows "m_enabled s' = m_enabled s" "m_sdkOpen s' = m_sdkOpen s" "m_open s' = m_open s"
    "m_ringUsers s' = m_ringUsers s" "m_bytesPerSample s' = m_bytesPerSample s"
    "m_workerActive s' = m_workerActive s" "m_reconfiguring s' = m_reconfiguring s"
    "m_sampleRate s' = m_sampleRate s" "m_effectiveMTU s' = m_effectiveMTU s"
    "m_isDsdMode s' = m_isDsdMode s"
    "m_needDsdBitReversal s' = m_needDsdBitReversal s"
    "m_needDsdByteSwap s' = m_needDsdByteSwap s"
    "m_dsdConversionMode s' = m_dsdConversionMode s"
  using assms by simp_all

lemmas retry_fields [simp] = trace_only_fields [OF retry_trace_only]

lemmas waitWorkerIdle_fields [simp] = trace_only_fields [OF waitWorkerIdle_trace_only]

lemma applyTransferMode_trace_only:
  "applyTransferMode mode cycle s = s\<lparr>trace := trace (applyTransferMode mode cycle s)\<rparr>"
  by (cases mode) (simp_all add: applyTransferMode_def effect_def)

lemmas applyTransferMode_fields [simp] = trace_only_fields [OF applyTransferMode_trace_only]



lemma open_connect_fields [simp]:
  "m_enabled (snd (open_connect P E format rate bits s)) = m_enabled s"
  "m_bytesPerSample (snd (open_connect P E format rate bits s)) = m_bytesPerSample s"
  "m_sdkOpen (snd (open_connect P E format rate bits s)) = m_sdkOpen s"
  "m_ringUsers (snd (open_connect P E format rate bits s)) = m_ringUsers s"
  "m_needDsdBitReversal (snd (open_connect P E format rate bits s)) = m_needDsdBitReversal s"
  "m_needDsdByteSwap (snd (open_connect P E format rate bits s)) = m_needDsdByteSwap s"
  "m_dsdConversionMode (snd (open_connect P E format rate bits s)) = m_dsdConversionMode s"
  by (simp_all add: open_connect_def Let_def split_beta sdk_def effect_def waitForOnline_def)




section \<open>The DSD negotiation as seen in the trace of \<^verbatim>\<open>open\<close>\<close>

text \<open>
  Helper facts: every step of \<^verbatim>\<open>open\<close> other than the sink configuration is quiet.
\<close>

lemma sink_negotiation_simps [simp]:
  "sink_negotiation [] = []"
  "sink_negotiation (t @ u) = sink_negotiation t @ sink_negotiation u"
  "sink_negotiation (c # t) = (if is_negotiation c then c # sink_negotiation t else sink_negotiation t)"
  by (simp_all add: sink_negotiation_def)






















section \<open>Properties of the quick resume\<close>

lemma awaitSilence_emits:
  assumes "\<not> m_reconfiguring s"
  shows "\<exists>s'. awaitSilence P cycles s = Inr s'
           \<and> trace s' = trace s @ replicate (min cycles (nat (m_silenceBuffersRemaining s)))
                                     (Callback (replicate (m_bytesPerBuffer s)
                                                  (silenceByte (m_ringBuffer s))))
           \<and> m_ringBuffer s' = m_ringBuffer s"
  using assms
proof (induction cycles arbitrary: s)
  case 0
  show ?case by simp
next
  case (Suc cycles)
  show ?case
  proof (cases "0 < m_silenceBuffersRemaining s")
    case True
    let ?dest = "replicate (m_bytesPerBuffer s) (silenceByte (m_ringBuffer s))"
    let ?s1 = "effect (Callback ?dest)
                 (s\<lparr>m_workerActive := False,
                    m_silenceBuffersRemaining := m_silenceBuffersRemaining s - 1\<rparr>)"
    have step: "awaitSilence P (Suc cycles) s = awaitSilence P cycles ?s1"
      using True Suc.prems by (simp add: getNewStream_shutdown_silence)
    have "\<not> m_reconfiguring ?s1"
      using Suc.prems by (simp add: effect_def)
    from Suc.IH [OF this] obtain s' where s':
      "awaitSilence P cycles ?s1 = Inr s'"
      "trace s' = trace ?s1 @ replicate (min cycles (nat (m_silenceBuffersRemaining ?s1)))
                                (Callback (replicate (m_bytesPerBuffer ?s1)
                                             (silenceByte (m_ringBuffer ?s1))))"
      "m_ringBuffer s' = m_ringBuffer ?s1"
      by blast
    have count: "min (Suc cycles) (nat (m_silenceBuffersRemaining s))
                   = Suc (min cycles (nat (m_silenceBuffersRemaining s - 1)))"
      using True by (simp add: min_def nat_diff_distrib) linarith
    have "trace s' = trace s @ replicate (min (Suc cycles) (nat (m_silenceBuffersRemaining s)))
                                 (Callback ?dest)"
      using s'(2) by (simp add: effect_def count)
    moreover have "m_ringBuffer s' = m_ringBuffer s"
      using s'(3) by (simp add: effect_def)
    ultimately show ?thesis
      using step s'(1) by simp
  next
    case False
    then show ?thesis by simp
  qed
qed

text \<open>
  C5, as the code has it. \<^verbatim>\<open>open\<close> on a core that is open with the same sample rate,
  bit depth, channel count and PCM/DSD kind takes the quick resume. Only in DSD mode does
  it request shutdown silence: 30 buffers, of which the consumer emits as many as the
  transport asks for before the 100 ms deadline; in PCM mode it requests none and no
  silence cycle is emitted. In both modes the ring is then cleared, the prefill, warmup,
  stop-requested and draining flags, the stabilisation count and the silence counter are
  reset, \<^verbatim>\<open>play()\<close> is called and the call returns \<open>True\<close>. The transport sees the
  silence callbacks and \<^verbatim>\<open>play()\<close> and nothing else: no sink format is set and no
  connection handshake is made.
\<close>

theorem C5_quick_resume:
  assumes "m_enabled s" "m_sdkOpen s" "m_open s" "m_hasPreviousFormat s"
    "sameFormat (m_previousFormat s) format" "\<not> m_reconfiguring s"
  shows "\<exists>s'. open' P E cycles format s = Some (Inr True, s')
           \<and> trace s' = trace s
                 @ replicate (if m_isDsdMode s then min cycles 30 else 0)
                     (Callback (replicate (m_bytesPerBuffer s) (silenceByte (m_ringBuffer s))))
                 @ [Play]
           \<and> m_ringBuffer s' = clear (m_ringBuffer s)
           \<and> \<not> m_prefillComplete s' \<and> \<not> m_postOnlineDelayDone s' \<and> m_stabilizationCount s' = 0
           \<and> \<not> m_stopRequested s' \<and> \<not> m_draining s' \<and> m_silenceBuffersRemaining s' = 0
           \<and> m_playing s' \<and> \<not> m_paused s'"
proof (cases "m_isDsdMode s")
  case True
  let ?s0 = "requestShutdownSilence 30 s"
  have "\<not> m_reconfiguring ?s0"
    using assms(6) by (simp add: requestShutdownSilence_def)
  from awaitSilence_emits [OF this, of P cycles] obtain s1 where s1:
    "awaitSilence P cycles ?s0 = Inr s1"
    "trace s1 = trace s @ replicate (min cycles 30)
                            (Callback (replicate (m_bytesPerBuffer s) (silenceByte (m_ringBuffer s))))"
    "m_ringBuffer s1 = m_ringBuffer s"
    by (auto simp: requestShutdownSilence_def)
  show ?thesis
    using assms True s1
    by (simp add: open'_def open_quickResume_def effect_def Let_def)
next
  case False
  show ?thesis
    using assms False
    by (simp add: open'_def open_quickResume_def effect_def Let_def)
qed

section \<open>Evaluations at concrete inputs\<close>

lemma waitWorkerIdle_idle: "\<not> m_workerActive s \<Longrightarrow> waitWorkerIdle n s = s"
  by (cases n) simp_all

lemma retry_first:
  "0 < n \<Longrightarrow> answer E (length (trace s)) \<Longrightarrow> retry E n d c True s = (True, effect c s)"
  by (cases n) (simp_all add: sdk_def effect_def)

lemmas model_defs =
  enable_def discoverTarget_def measureMTU_def openSyncConnection_def sdk_def effect_def
  open'_def open_configureFormat_def open_connect_def fullReset_def beginReconfigure_def
  endReconfigure_def configureSinkPCM_def configureRingPCM_def configureSinkDSD_def
  configureRingDSD_def dsdSinkAccepted_def checkSinkSupport_def
  setSinkConfigure_def calculateCycleTime_def applyTransferMode_def waitForOnline_def
  open_formatChange_def reopenForFormatChange_def closeAndReopen_def sameFormat_def
  open_quickResume_def requestShutdownSilence_def
  clear_def resize_def fits_int_def pcm_cycle_fits_def int_of_uint32_def Let_def

lemmas instance_defs =
  enabled_state_def example_env_def example_params_def example_config_def DirettaSync_new_def
  pcm_8k_mono_def pcm_cd_def dsd512_def dff512_def dsd64_def no_format_def



lemma playing_dsd512_state_fields:
  "m_enabled playing_dsd512_state" "m_sdkOpen playing_dsd512_state" "m_open playing_dsd512_state"
  "m_hasPreviousFormat playing_dsd512_state" "m_previousFormat playing_dsd512_state = dsd512"
  "\<not> m_reconfiguring playing_dsd512_state" "m_isDsdMode playing_dsd512_state"
  "m_bytesPerBuffer playing_dsd512_state = 5648"
  "silenceByte (m_ringBuffer playing_dsd512_state) = 0x69"
  "m_sampleRate playing_dsd512_state = 0" "m_effectiveMTU playing_dsd512_state = 1500"
  by (simp_all add: playing_dsd512_state_def model_defs instance_defs retry_first
      waitWorkerIdle_idle silenceByte_def)

text \<open>
  C8 at two concrete inputs, each opened from the enabled state. 8 kHz mono PCM on a sink
  that takes 32-bit PCM: the call succeeds and the per-cycle byte count is 8 frames of 4
  bytes, that is 32, below 64. Stereo DSD64 (2822400 bits, 352800 bytes per second and
  channel): the call succeeds and the per-cycle byte count is 704, fewer than the 705.6
  bytes that are a thousandth of the 705600 bytes per second, so it is not that amount
  rounded up.
\<close>

theorem C8_pcm_floor_counterexample:
  "map_option fst (open' example_params (example_env FMT_PCM_SIGNED_32) 0 pcm_8k_mono enabled_state)
     = Some (Inr True)
   \<and> map_option (m_bytesPerBuffer \<circ> snd)
         (open' example_params (example_env FMT_PCM_SIGNED_32) 0 pcm_8k_mono enabled_state)
     = Some 32
   \<and> map_option fst (open' example_params (example_env FMT_DSD1) 0 dsd64 enabled_state)
     = Some (Inr True)
   \<and> map_option (m_bytesPerBuffer \<circ> snd)
         (open' example_params (example_env FMT_DSD1) 0 dsd64 enabled_state)
     = Some 704
   \<and> 1000 * (704 :: nat) < (sampleRate dsd64 div 8) * channels dsd64"
proof (intro conjI)
  show "map_option fst
          (open' example_params (example_env FMT_PCM_SIGNED_32) 0 pcm_8k_mono enabled_state)
        = Some (Inr True)"
    by (simp add: model_defs instance_defs retry_first waitWorkerIdle_idle)
  show "map_option (m_bytesPerBuffer \<circ> snd)
          (open' example_params (example_env FMT_PCM_SIGNED_32) 0 pcm_8k_mono enabled_state)
        = Some 32"
    by (simp add: model_defs instance_defs retry_first waitWorkerIdle_idle)
  show "map_option fst (open' example_params (example_env FMT_DSD1) 0 dsd64 enabled_state)
        = Some (Inr True)"
    by (simp add: model_defs instance_defs retry_first waitWorkerIdle_idle)
  show "map_option (m_bytesPerBuffer \<circ> snd)
          (open' example_params (example_env FMT_DSD1) 0 dsd64 enabled_state)
        = Some 704"
    by (simp add: model_defs instance_defs retry_first waitWorkerIdle_idle)
  show "1000 * (704 :: nat) < (sampleRate dsd64 div 8) * channels dsd64"
    by (simp add: dsd64_def)
qed

text \<open>
  The ring configuration for CD audio on a 16-bit wire (45 frames of 4 bytes) and for
  stereo DSD64 (352 bytes per channel and millisecond, 704 in all, a multiple of 8).
\<close>

theorem C8_bytes_per_cycle_witness:
  "m_ringUsers DirettaSync_new \<le> 0
   \<and> (44100 :: nat) + 999 < 2 ^ 31
   \<and> (\<exists>s'. configureRingPCM example_params 44100 2 2 2 DirettaSync_new = Some (Inr s')
          \<and> m_bytesPerBuffer s' = 180)
   \<and> (352800 :: nat) < 2 ^ 32
   \<and> ((352800 :: nat) div 1000 * 2) mod 2 ^ 32 + 4 * 2 < 2 ^ 31
   \<and> (\<exists>s' r. configureRingDSD example_params 352800 2 DirettaSync_new = Some (Inr s')
          \<and> 8 dvd r \<and> 704 \<le> r \<and> r < 712 \<and> m_bytesPerBuffer s' = max 64 r)"
proof -
  have users: "m_ringUsers DirettaSync_new \<le> 0"
    by (simp add: DirettaSync_new_def)
  from C8_bytes_per_cycle
         [OF users, where P = example_params and rate = 44100 and nchannels = 2
            and direttaBps = 2 and inputBps = 2 and byteRate = 352800]
       users
  show ?thesis by simp blast
qed

text \<open>
  C5 at a concrete input: CD audio is open and playing, and \<^verbatim>\<open>open\<close> is called again
  with the same format while the transport would make 100 cycle callbacks during a wait.
  The call returns \<open>True\<close> and its only effect on the transport is \<^verbatim>\<open>play()\<close>: no
  silence cycle is emitted.
\<close>

theorem C5_pcm_resume_counterexample:
  "map_option fst
     (open' example_params (example_env FMT_PCM_SIGNED_32) 100 pcm_cd playing_cd_state)
     = Some (Inr True)
   \<and> map_option (trace \<circ> snd)
         (open' example_params (example_env FMT_PCM_SIGNED_32) 100 pcm_cd playing_cd_state)
     = Some (trace playing_cd_state @ [Play])"
  by (simp add: playing_cd_state_def model_defs instance_defs retry_first waitWorkerIdle_idle)

text \<open>
  The quick resume with DSD512 open and 40 callbacks before the deadline: 30 silence
  buffers of 5648 bytes \<open>0x69\<close> are emitted, then \<^verbatim>\<open>play()\<close>.
\<close>

theorem C5_quick_resume_witness:
  "m_enabled playing_dsd512_state \<and> m_sdkOpen playing_dsd512_state \<and> m_open playing_dsd512_state
   \<and> m_hasPreviousFormat playing_dsd512_state
   \<and> sameFormat (m_previousFormat playing_dsd512_state) dsd512
   \<and> \<not> m_reconfiguring playing_dsd512_state
   \<and> (\<exists>s'. open' example_params (example_env FMT_DSD1) 40 dsd512 playing_dsd512_state
              = Some (Inr True, s')
          \<and> trace s' = trace playing_dsd512_state
                          @ replicate 30 (Callback (replicate 5648 0x69)) @ [Play]
          \<and> m_silenceBuffersRemaining s' = 0 \<and> \<not> m_prefillComplete s')"
proof -
  note f = playing_dsd512_state_fields
  have same: "sameFormat (m_previousFormat playing_dsd512_state) dsd512"
    by (simp add: f(5) sameFormat_def)
  from C5_quick_resume
         [OF f(1) f(2) f(3) f(4) same f(6), where P = example_params
            and E = "example_env FMT_DSD1" and cycles = 40]
  show ?thesis
    using f same by (auto simp: f(7) f(8) f(9))
qed

lemma configureRingDSD_keeps_sampleRate:
  assumes "configureRingDSD P byteRate nchannels s = Some (Inr s')"
  shows "m_sampleRate s' = m_sampleRate s"
  using assms
  by (auto simp: configureRingDSD_def beginReconfigure_def endReconfigure_def Let_def
      split: if_splits)

lemma configureSinkDSD_keeps_sampleRate:
  "m_sampleRate (snd (configureSinkDSD E dsdBitRate nchannels format s)) = m_sampleRate s"
  by (simp add: configureSinkDSD_def sink_unfold)

text \<open>
  C6, evaluated. After DSD512 is opened from the enabled state with an MTU of 1500, the
  core is in DSD mode, \<open>m_sampleRate\<close> is still 0 and the warmup target that the callback
  computes is 50 cycles; after CD audio has played and DSD512 is opened, \<open>m_sampleRate\<close>
  is still 44100 and the target is again 50. \<^verbatim>\<open>configureRingDSD\<close> does not store the
  sample rate that the warmup computation reads. The spec's formula gives 1530 cycles for
  DSD512 at this MTU, and so does the code's computation when it is given the DSD rate.
\<close>

theorem C6_dsd512_warmup_is_50_cycles:
  "map_option (m_isDsdMode \<circ> snd)
     (open' example_params (example_env FMT_DSD1) 0 dsd512 enabled_state) = Some True
   \<and> map_option (m_sampleRate \<circ> snd)
       (open' example_params (example_env FMT_DSD1) 0 dsd512 enabled_state) = Some 0
   \<and> map_option (stabilizationTarget example_params \<circ> snd)
       (open' example_params (example_env FMT_DSD1) 0 dsd512 enabled_state) = Some (Some 50)
   \<and> map_option (m_sampleRate \<circ> snd)
       (open' example_params (example_env FMT_DSD1) 0 dsd512 playing_cd_state) = Some 44100
   \<and> map_option (stabilizationTarget example_params \<circ> snd)
       (open' example_params (example_env FMT_DSD1) 0 dsd512 playing_cd_state) = Some (Some 50)
   \<and> spec_warmup_cycles (sampleRate dsd512) (channels dsd512) 1500 = 1530
   \<and> dsdStabilizationTarget (sampleRate dsd512) 1500 = Some 1530"
proof (intro conjI)
  show "map_option (m_isDsdMode \<circ> snd)
     (open' example_params (example_env FMT_DSD1) 0 dsd512 enabled_state) = Some True"
    by (simp add: model_defs instance_defs retry_first waitWorkerIdle_idle)
  show "map_option (m_sampleRate \<circ> snd)
       (open' example_params (example_env FMT_DSD1) 0 dsd512 enabled_state) = Some 0"
    by (simp add: model_defs instance_defs retry_first waitWorkerIdle_idle)
  show "map_option (stabilizationTarget example_params \<circ> snd)
       (open' example_params (example_env FMT_DSD1) 0 dsd512 enabled_state) = Some (Some 50)"
    by (simp add: model_defs instance_defs retry_first waitWorkerIdle_idle
        stabilizationTarget_def dsdStabilizationTarget_def)
  show "map_option (m_sampleRate \<circ> snd)
       (open' example_params (example_env FMT_DSD1) 0 dsd512 playing_cd_state) = Some 44100"
    by (simp add: playing_cd_state_def model_defs instance_defs retry_first waitWorkerIdle_idle)
  show "map_option (stabilizationTarget example_params \<circ> snd)
       (open' example_params (example_env FMT_DSD1) 0 dsd512 playing_cd_state) = Some (Some 50)"
    by (simp add: playing_cd_state_def model_defs instance_defs retry_first waitWorkerIdle_idle
        stabilizationTarget_def dsdStabilizationTarget_def)
  have cycles: "\<lceil>(62720 :: rat) / 41\<rceil> = 1530"
    by (simp add: ceiling_eq_iff)
  show "spec_warmup_cycles (sampleRate dsd512) (channels dsd512) 1500 = 1530"
    by (simp add: spec_warmup_cycles_def dsd512_def Let_def cycles)
  show "dsdStabilizationTarget (sampleRate dsd512) 1500 = Some 1530"
    by (simp add: dsdStabilizationTarget_def dsd512_def Let_def cycles)
qed




end
